theory Spec2Isabelle
  imports Main "HOL-Library.Word" "HOL-Library.AList"
begin

section \<open>JavaScript strings\<close>

text \<open>
  A JavaScript string is a sequence of UTF-16 code units. The literals of the source
  are ASCII and are written through \<open>str\<close>.
\<close>

type_synonym code_unit = "16 word"
type_synonym jsstring = "code_unit list"

definition str :: "string \<Rightarrow> jsstring" where
  "str s = map (\<lambda>c. of_nat (of_char c)) s"

text \<open>
  \<open>String.prototype.trim\<close> removes the code units of the ECMAScript productions
  WhiteSpace and LineTerminator from both ends.
\<close>

definition isWhiteSpace :: "code_unit \<Rightarrow> bool" where
  "isWhiteSpace c \<longleftrightarrow>
     c = 0x9 \<or> c = 0xA \<or> c = 0xB \<or> c = 0xC \<or> c = 0xD \<or> c = 0x20 \<or> c = 0xA0 \<or>
     c = 0x1680 \<or> (0x2000 \<le> c \<and> c \<le> 0x200A) \<or> c = 0x2028 \<or> c = 0x2029 \<or>
     c = 0x202F \<or> c = 0x205F \<or> c = 0x3000 \<or> c = 0xFEFF"

definition trim :: "jsstring \<Rightarrow> jsstring" where
  "trim s = rev (dropWhile isWhiteSpace (rev (dropWhile isWhiteSpace s)))"

text \<open>\<open>s.split(sep)\<close> for a one-character separator; \<open>acc\<close> is the segment being read.\<close>

fun split_from :: "'a \<Rightarrow> 'a list \<Rightarrow> 'a list \<Rightarrow> 'a list list" where
  "split_from sep acc [] = [rev acc]"
| "split_from sep acc (c # cs) =
     (if c = sep then rev acc # split_from sep [] cs else split_from sep (c # acc) cs)"

definition split :: "'a \<Rightarrow> 'a list \<Rightarrow> 'a list list" where
  "split sep s = split_from sep [] s"

text \<open>\<open>Array.prototype.findIndex\<close>; \<open>None\<close> is the result \<open>-1\<close>.\<close>

fun findIndex :: "('a \<Rightarrow> bool) \<Rightarrow> 'a list \<Rightarrow> nat option" where
  "findIndex P [] = None"
| "findIndex P (x # xs) = (if P x then Some 0 else map_option Suc (findIndex P xs))"

section \<open>Errors\<close>

text \<open>
  The exceptions the code can raise, with the message of the source where it gives one.
  The last four come from the platform: the encoder, the JSON parser and the storage.
\<close>

datatype error =
    TypeError string
  | Error string
  | URIError
  | SyntaxError
  | SecurityError
  | QuotaExceededError

section \<open>Normalizer\<close>

text \<open>
  The two fields of a \<open>URL\<close> object that the code reads. The constructor \<open>new URL(url)\<close>
  is the platform's parser: it is a parameter of the model, \<open>None\<close> when it throws.
\<close>

record URL =
  hostname :: jsstring
  pathname :: jsstring

record NormalizedInstagramUrl =
  username :: jsstring
  url :: jsstring

record InstagramDeepLink =
  appUrl :: jsstring
  webUrl :: jsstring

text \<open>\<open>hostname.replace(/^www\./, '')\<close>\<close>

definition replace_www :: "jsstring \<Rightarrow> jsstring" where
  "replace_www h = (if take 4 h = str ''www.'' then drop 4 h else h)"

text \<open>
  The case folding of a regular expression with the flag \<open>i\<close>, on the ASCII range: the
  pattern below is ASCII, and a code unit outside ASCII never folds onto an ASCII one.
\<close>

definition canonicalize :: "code_unit \<Rightarrow> code_unit" where
  "canonicalize c = (if 0x61 \<le> c \<and> c \<le> 0x7A then c - 0x20 else c)"

text \<open>\<open>/instagram\.com$/i.test(h)\<close>: the pattern is anchored at the end only.\<close>

definition test_instagram_com :: "jsstring \<Rightarrow> bool" where
  "test_instagram_com h \<longleftrightarrow>
     (let p = str ''instagram.com'' in
      length p \<le> length h \<and>
      map canonicalize (drop (length h - length p) h) = map canonicalize p)"

definition normalizeInstagramUrl ::
  "(jsstring \<Rightarrow> URL option) \<Rightarrow> jsstring \<Rightarrow> NormalizedInstagramUrl option" where
  "normalizeInstagramUrl new_URL raw =
     (if trim raw = [] then None
      else case new_URL raw of
        None \<Rightarrow> None
      | Some u \<Rightarrow>
          let host = replace_www (hostname u) in
          if \<not> test_instagram_com host then None
          else
            let parts = filter (\<lambda>s. s \<noteq> []) (split 0x2F (pathname u)) in
            case parts of
              [] \<Rightarrow> None
            | usern # _ \<Rightarrow>
                if usern = [] then None
                else Some \<lparr>username = usern, url = str ''https://instagram.com/'' @ usern\<rparr>)"

text \<open>The older copy of the function in app.js has no guard on blank input.\<close>

definition normalizeInstagramUrl_app ::
  "(jsstring \<Rightarrow> URL option) \<Rightarrow> jsstring \<Rightarrow> NormalizedInstagramUrl option" where
  "normalizeInstagramUrl_app new_URL raw =
     (case new_URL raw of
        None \<Rightarrow> None
      | Some u \<Rightarrow>
          if \<not> test_instagram_com (replace_www (hostname u)) then None
          else
            let parts = filter (\<lambda>s. s \<noteq> []) (split 0x2F (pathname u)) in
            case parts of
              [] \<Rightarrow> None
            | usern # _ \<Rightarrow>
                if usern = [] then None
                else Some \<lparr>username = usern, url = str ''https://instagram.com/'' @ usern\<rparr>)"

text \<open>
  What the platform's parser returns on the URLs of the spec's examples (host lowercased,
  query and fragment outside \<open>pathname\<close>); every other input is left unparsed here.
\<close>

definition example_URL :: "jsstring \<Rightarrow> URL option" where
  "example_URL = map_of
     [(str ''https://notinstagram.com/jdoe'',
         \<lparr>hostname = str ''notinstagram.com'', pathname = str ''/jdoe''\<rparr>),
      (str ''https://www.instagram.com/jdoe/?x=1'',
         \<lparr>hostname = str ''www.instagram.com'', pathname = str ''/jdoe/''\<rparr>),
      (str ''HTTP://WWW.Instagram.COM//jdoe/posts#top'',
         \<lparr>hostname = str ''www.instagram.com'', pathname = str ''//jdoe/posts''\<rparr>),
      (str ''https://instagram.com'',
         \<lparr>hostname = str ''instagram.com'', pathname = str ''/''\<rparr>)]"

subsection \<open>Percent-encoding\<close>

text \<open>
  \<open>encodeURIComponent\<close> is the ECMAScript operation Encode with the unescaped set
  uriUnreserved: letters, digits and \<open>- _ . ! ~ * ' ( )\<close>. Every other code point is
  written as the escaped octets of its UTF-8 encoding; a surrogate code unit that is
  not half of a pair raises a URIError.
\<close>

definition uriUnreserved :: "code_unit \<Rightarrow> bool" where
  "uriUnreserved c \<longleftrightarrow>
     (0x41 \<le> c \<and> c \<le> 0x5A) \<or> (0x61 \<le> c \<and> c \<le> 0x7A) \<or> (0x30 \<le> c \<and> c \<le> 0x39) \<or>
     c = 0x2D \<or> c = 0x5F \<or> c = 0x2E \<or> c = 0x21 \<or> c = 0x7E \<or> c = 0x2A \<or>
     c = 0x27 \<or> c = 0x28 \<or> c = 0x29"

definition isLeadingSurrogate :: "code_unit \<Rightarrow> bool" where
  "isLeadingSurrogate c \<longleftrightarrow> 0xD800 \<le> c \<and> c \<le> 0xDBFF"

definition isTrailingSurrogate :: "code_unit \<Rightarrow> bool" where
  "isTrailingSurrogate c \<longleftrightarrow> 0xDC00 \<le> c \<and> c \<le> 0xDFFF"

definition surrogatePairToCodePoint :: "code_unit \<Rightarrow> code_unit \<Rightarrow> nat" where
  "surrogatePairToCodePoint lead trail =
     (unat lead - 0xD800) * 0x400 + (unat trail - 0xDC00) + 0x10000"

definition utf8 :: "nat \<Rightarrow> nat list" where
  "utf8 cp =
     (if cp < 0x80 then [cp]
      else if cp < 0x800 then [0xC0 + cp div 0x40, 0x80 + cp mod 0x40]
      else if cp < 0x10000 then
        [0xE0 + cp div 0x1000, 0x80 + cp div 0x40 mod 0x40, 0x80 + cp mod 0x40]
      else
        [0xF0 + cp div 0x40000, 0x80 + cp div 0x1000 mod 0x40,
         0x80 + cp div 0x40 mod 0x40, 0x80 + cp mod 0x40])"

definition hexDigit :: "nat \<Rightarrow> code_unit" where
  "hexDigit n = (if n < 10 then 0x30 + of_nat n else 0x41 + of_nat (n - 10))"

definition escapeOctet :: "nat \<Rightarrow> jsstring" where
  "escapeOctet b = [0x25, hexDigit (b div 16), hexDigit (b mod 16)]"

definition escapeCodePoint :: "nat \<Rightarrow> jsstring" where
  "escapeCodePoint cp = concat (map escapeOctet (utf8 cp))"

definition prepend :: "jsstring \<Rightarrow> error + jsstring \<Rightarrow> error + jsstring" where
  "prepend s r = (case r of Inl e \<Rightarrow> Inl e | Inr t \<Rightarrow> Inr (s @ t))"

fun encodeURIComponent :: "jsstring \<Rightarrow> error + jsstring" where
  "encodeURIComponent [] = Inr []"
| "encodeURIComponent (c # cs) =
     (if uriUnreserved c then prepend [c] (encodeURIComponent cs)
      else if isTrailingSurrogate c then Inl URIError
      else if isLeadingSurrogate c then
        (case cs of
           [] \<Rightarrow> Inl URIError
         | d # ds \<Rightarrow>
             if isTrailingSurrogate d
             then prepend (escapeCodePoint (surrogatePairToCodePoint c d)) (encodeURIComponent ds)
             else Inl URIError)
      else prepend (escapeCodePoint (unat c)) (encodeURIComponent cs))"

text \<open>\<open>String.prototype.isWellFormed\<close>: no surrogate code unit outside a pair.\<close>

fun isWellFormed :: "jsstring \<Rightarrow> bool" where
  "isWellFormed [] \<longleftrightarrow> True"
| "isWellFormed (c # cs) \<longleftrightarrow>
     (if isTrailingSurrogate c then False
      else if isLeadingSurrogate c then
        (case cs of [] \<Rightarrow> False | d # ds \<Rightarrow> isTrailingSurrogate d \<and> isWellFormed ds)
      else isWellFormed cs)"

definition instaDeepLink :: "jsstring \<Rightarrow> error + InstagramDeepLink" where
  "instaDeepLink usern =
     (if trim usern = [] then Inl (TypeError ''Username must be a non-empty string'')
      else case encodeURIComponent usern of
        Inl e \<Rightarrow> Inl e
      | Inr encodedUsername \<Rightarrow>
          Inr \<lparr>appUrl = str ''instagram://user?username='' @ encodedUsername,
               webUrl = str ''https://instagram.com/'' @ encodedUsername\<rparr>)"

section \<open>Store\<close>

text \<open>
  A number, as \<open>JSON.parse\<close> can return it. The code never reads a number, so a finite
  one is given by an integer that only tells numbers apart. A numeral beyond the range
  of a double, such as \<open>1e309\<close>, parses to an infinity, and \<open>JSON.stringify\<close> writes an
  infinity as \<open>null\<close>.
\<close>

datatype number = Finite int | Infinity | MinusInfinity

text \<open>
  The values of JSON, as \<open>JSON.parse\<close> builds them: a tree without sharing. An object
  is its list of properties in order.
\<close>

datatype json =
    JNull
  | JBool bool
  | JNum number
  | JStr jsstring
  | JArr "json list"
  | JObj "(jsstring \<times> json) list"

text \<open>
  \<open>JSON.parse\<close> and \<open>JSON.stringify\<close> are the platform's: parameters of the model.
  \<open>parse\<close> gives \<open>None\<close> where \<open>JSON.parse\<close> throws a SyntaxError.
\<close>

record JSON =
  parse :: "jsstring \<Rightarrow> json option"
  stringify :: "json \<Rightarrow> jsstring"

text \<open>
  \<open>localStorage\<close>: the stored items, whether the page may use the storage at all (if not,
  every access throws), and which writes the storage has room for (\<open>setItem\<close> throws on
  the others).
\<close>

record localStorage =
  items :: "jsstring \<rightharpoonup> jsstring"
  accessible :: bool
  accepts :: "jsstring \<Rightarrow> jsstring \<Rightarrow> bool"

definition getItem :: "localStorage \<Rightarrow> jsstring \<Rightarrow> error + jsstring option" where
  "getItem ls k = (if accessible ls then Inr (items ls k) else Inl SecurityError)"

definition setItem :: "localStorage \<Rightarrow> jsstring \<Rightarrow> jsstring \<Rightarrow> error + localStorage" where
  "setItem ls k v =
     (if \<not> accessible ls then Inl SecurityError
      else if \<not> accepts ls k v then Inl QuotaExceededError
      else Inr (ls\<lparr>items := (items ls)(k \<mapsto> v)\<rparr>))"

definition STORAGE_KEY :: jsstring where
  "STORAGE_KEY = str ''profiles.v2''"

subsection \<open>Reading values\<close>

text \<open>
  \<open>v.k\<close> and \<open>k in v\<close> for the property names the code uses (\<open>id\<close>, \<open>name\<close>,
  \<open>profiles\<close>): only an object of the document can have one of them. \<open>None\<close> is
  \<open>undefined\<close>. Reading a property of \<open>null\<close> throws, which \<open>member\<close> models.
\<close>

fun get_prop :: "json \<Rightarrow> jsstring \<Rightarrow> json option" where
  "get_prop (JObj kvs) k = map_of kvs k"
| "get_prop _ k = None"

fun in_op :: "jsstring \<Rightarrow> json \<Rightarrow> bool" where
  "in_op k (JObj kvs) \<longleftrightarrow> k \<in> set (map fst kvs)"
| "in_op k _ \<longleftrightarrow> False"

definition member :: "json \<Rightarrow> jsstring \<Rightarrow> error + json option" where
  "member v k =
     (case v of JNull \<Rightarrow> Inl (TypeError ''Cannot read properties of null'')
      | _ \<Rightarrow> Inr (get_prop v k))"

fun typeof_object :: "json \<Rightarrow> bool" where
  "typeof_object JNull \<longleftrightarrow> True"
| "typeof_object (JArr xs) \<longleftrightarrow> True"
| "typeof_object (JObj kvs) \<longleftrightarrow> True"
| "typeof_object _ \<longleftrightarrow> False"

fun typeof_string :: "json option \<Rightarrow> bool" where
  "typeof_string (Some (JStr s)) \<longleftrightarrow> True"
| "typeof_string _ \<longleftrightarrow> False"

fun isArray :: "json option \<Rightarrow> bool" where
  "isArray (Some (JArr xs)) \<longleftrightarrow> True"
| "isArray _ \<longleftrightarrow> False"

text \<open>The type guard of \<open>readCategories\<close>.\<close>

definition is_Category :: "json \<Rightarrow> bool" where
  "is_Category item \<longleftrightarrow>
     typeof_object item \<and>
     item \<noteq> JNull \<and>
     in_op (str ''id'') item \<and>
     in_op (str ''name'') item \<and>
     in_op (str ''profiles'') item \<and>
     typeof_string (get_prop item (str ''id'')) \<and>
     typeof_string (get_prop item (str ''name'')) \<and>
     isArray (get_prop item (str ''profiles''))"

text \<open>The body of the \<open>try\<close> block, then the function with its \<open>catch\<close>.\<close>

definition readCategories_try :: "JSON \<Rightarrow> localStorage \<Rightarrow> error + json list" where
  "readCategories_try J ls =
     (case getItem ls STORAGE_KEY of
        Inl e \<Rightarrow> Inl e
      | Inr None \<Rightarrow> Inr []
      | Inr (Some raw) \<Rightarrow>
          if raw = [] then Inr []
          else case parse J raw of
            None \<Rightarrow> Inl SyntaxError
          | Some parsed \<Rightarrow>
              (case parsed of
                 JArr xs \<Rightarrow> Inr (filter is_Category xs)
               | _ \<Rightarrow> Inr []))"

definition readCategories :: "JSON \<Rightarrow> localStorage \<Rightarrow> json list" where
  "readCategories J ls = (case readCategories_try J ls of Inl e \<Rightarrow> [] | Inr cs \<Rightarrow> cs)"

text \<open>The copy in app.js returns the parsed array as it is.\<close>

definition readCategories_app :: "JSON \<Rightarrow> localStorage \<Rightarrow> json list" where
  "readCategories_app J ls =
     (case getItem ls STORAGE_KEY of
        Inl e \<Rightarrow> []
      | Inr None \<Rightarrow> []
      | Inr (Some raw) \<Rightarrow>
          if raw = [] then []
          else case parse J raw of
            None \<Rightarrow> []
          | Some parsed \<Rightarrow> (case parsed of JArr xs \<Rightarrow> xs | _ \<Rightarrow> []))"

definition writeCategories :: "JSON \<Rightarrow> json \<Rightarrow> localStorage \<Rightarrow> error + localStorage" where
  "writeCategories J categories ls =
     (if \<not> isArray (Some categories) then Inl (TypeError ''Categories must be an array'')
      else case setItem ls STORAGE_KEY (stringify J categories) of
        Inl e \<Rightarrow> Inl (Error ''Failed to save categories to localStorage'')
      | Inr ls' \<Rightarrow> Inr ls')"

subsection \<open>Repository operations\<close>

text \<open>\<open>c.id === categoryId\<close>, on a value that passed the type guard.\<close>

definition id_is :: "jsstring \<Rightarrow> json \<Rightarrow> bool" where
  "id_is i c \<longleftrightarrow> get_prop c (str ''id'') = Some (JStr i)"

text \<open>\<open>p.id === profileId\<close>, on any entry of a \<open>profiles\<close> array.\<close>

definition profile_id_is :: "jsstring \<Rightarrow> json \<Rightarrow> error + bool" where
  "profile_id_is i p =
     (case member p (str ''id'') of Inl e \<Rightarrow> Inl e | Inr v \<Rightarrow> Inr (v = Some (JStr i)))"

text \<open>\<open>findIndex\<close> with a callback that can throw.\<close>

fun findIndex_throwing :: "('a \<Rightarrow> error + bool) \<Rightarrow> 'a list \<Rightarrow> error + nat option" where
  "findIndex_throwing P [] = Inr None"
| "findIndex_throwing P (x # xs) =
     (case P x of
        Inl e \<Rightarrow> Inl e
      | Inr True \<Rightarrow> Inr (Some 0)
      | Inr False \<Rightarrow>
          (case findIndex_throwing P xs of
             Inl e \<Rightarrow> Inl e
           | Inr r \<Rightarrow> Inr (map_option Suc r)))"

text \<open>
  \<open>c.profiles\<close> as the array the code then calls \<open>push\<close>, \<open>findIndex\<close> or \<open>splice\<close> on,
  and the object \<open>c\<close> after that array has been changed in place.
\<close>

definition profiles_of :: "json \<Rightarrow> error + json list" where
  "profiles_of c =
     (case member c (str ''profiles'') of
        Inl e \<Rightarrow> Inl e
      | Inr (Some (JArr ps)) \<Rightarrow> Inr ps
      | Inr _ \<Rightarrow> Inl (TypeError ''not an array''))"

fun with_profiles :: "json \<Rightarrow> json list \<Rightarrow> json" where
  "with_profiles (JObj kvs) ps = JObj (AList.update (str ''profiles'') (JArr ps) kvs)"
| "with_profiles c ps = c"

definition findCategoryById :: "JSON \<Rightarrow> localStorage \<Rightarrow> jsstring \<Rightarrow> json option" where
  "findCategoryById J ls categoryId =
     (if trim categoryId = [] then None
      else find (id_is categoryId) (readCategories J ls))"

text \<open>
  The parameter \<open>param\<close> is \<open>urlParams.get('category')\<close>: \<open>None\<close> when the query has no
  such parameter.
\<close>

definition getCurrentCategory :: "JSON \<Rightarrow> localStorage \<Rightarrow> jsstring option \<Rightarrow> json option" where
  "getCurrentCategory J ls param =
     (case param of
        None \<Rightarrow> None
      | Some categoryId \<Rightarrow>
          if categoryId = [] then None
          else find (id_is categoryId) (readCategories J ls))"

text \<open>
  The two operations read the document, change the parsed tree in place and write it
  back; the result is the returned boolean and the storage after the call. The tree is
  not seen again after the call, so the new profile is given by the value that
  \<open>JSON.stringify\<close> writes for it.
\<close>

definition addProfileToCategory ::
  "JSON \<Rightarrow> localStorage \<Rightarrow> jsstring \<Rightarrow> json \<Rightarrow> error + bool \<times> localStorage" where
  "addProfileToCategory J ls categoryId profile =
     (let categories = readCategories J ls in
      case findIndex (id_is categoryId) categories of
        None \<Rightarrow> Inr (False, ls)
      | Some categoryIndex \<Rightarrow>
          (case profiles_of (categories ! categoryIndex) of
             Inl e \<Rightarrow> Inl e
           | Inr ps \<Rightarrow>
               let categories' =
                 categories[categoryIndex :=
                   with_profiles (categories ! categoryIndex) (ps @ [profile])]
               in case writeCategories J (JArr categories') ls of
                 Inl e \<Rightarrow> Inl e
               | Inr ls' \<Rightarrow> Inr (True, ls')))"

definition removeProfileFromCategory ::
  "JSON \<Rightarrow> localStorage \<Rightarrow> jsstring \<Rightarrow> jsstring \<Rightarrow> error + bool \<times> localStorage" where
  "removeProfileFromCategory J ls categoryId profileId =
     (let categories = readCategories J ls in
      case findIndex (id_is categoryId) categories of
        None \<Rightarrow> Inr (False, ls)
      | Some categoryIndex \<Rightarrow>
          (case profiles_of (categories ! categoryIndex) of
             Inl e \<Rightarrow> Inl e
           | Inr ps \<Rightarrow>
               (case findIndex_throwing (profile_id_is profileId) ps of
                  Inl e \<Rightarrow> Inl e
                | Inr None \<Rightarrow> Inr (False, ls)
                | Inr (Some profileIndex) \<Rightarrow>
                    let categories' =
                      categories[categoryIndex :=
                        with_profiles (categories ! categoryIndex)
                          (take profileIndex ps @ drop (Suc profileIndex) ps)]
                    in case writeCategories J (JArr categories') ls of
                      Inl e \<Rightarrow> Inl e
                    | Inr ls' \<Rightarrow> Inr (True, ls'))))"

subsection \<open>Creating a category\<close>

text \<open>
  \<open>createCategory\<close> copies an array, and the claim about it is that the copy is another
  array: here arrays live in a store and a value of type \<open>Profile[]\<close> is a reference
  into it (its index). The elements \<open>'p\<close> are whatever the array holds; the spread
  \<open>[...profiles]\<close> copies them as they are. \<open>crypto.randomUUID()\<close> returns the next
  identifier of a supply. The state also holds the storage, which the function has
  access to.
\<close>

type_synonym addr = nat

record 'p world =
  arrays :: "'p list list"
  uuids :: "nat \<Rightarrow> jsstring"
  uuid_calls :: nat
  storage :: localStorage

record Category =
  id' :: jsstring
  name :: jsstring
  profiles :: addr

definition alloc :: "'p list \<Rightarrow> 'p world \<Rightarrow> addr \<times> 'p world" where
  "alloc xs w = (length (arrays w), w\<lparr>arrays := arrays w @ [xs]\<rparr>)"

definition randomUUID :: "'p world \<Rightarrow> jsstring \<times> 'p world" where
  "randomUUID w = (uuids w (uuid_calls w), w\<lparr>uuid_calls := Suc (uuid_calls w)\<rparr>)"

text \<open>
  The second argument is \<open>None\<close> when the caller leaves it out: the default \<open>[]\<close> is
  then built on entry. A reference that is not an array of the store fails
  \<open>Array.isArray\<close>.
\<close>

definition createCategory ::
  "'p world \<Rightarrow> jsstring \<Rightarrow> addr option \<Rightarrow> error + Category \<times> 'p world" where
  "createCategory w nm arg =
     (let (ps, w1) = (case arg of None \<Rightarrow> alloc [] w | Some a \<Rightarrow> (a, w)) in
      if trim nm = [] then Inl (TypeError ''Name must be a non-empty string'')
      else if \<not> ps < length (arrays w1) then Inl (TypeError ''Profiles must be an array'')
      else
        let (uuid, w2) = randomUUID w1;
            (copy, w3) = alloc (arrays w2 ! ps) w2
        in Inr (\<lparr>id' = uuid, name = trim nm, profiles = copy\<rparr>, w3))"

section \<open>The platform in the examples\<close>

text \<open>
  The law of the platform's JSON that the round trip through the storage rests on, for
  one value: its text is not empty and parses to the value again.
\<close>

definition reads_back :: "JSON \<Rightarrow> json \<Rightarrow> bool" where
  "reads_back J v \<longleftrightarrow> stringify J v \<noteq> [] \<and> parse J (stringify J v) = Some v"

text \<open>Three profiles and two categories with the same id, as values.\<close>

definition ann :: json where
  "ann = JObj [(str ''id'', JStr (str ''p1'')), (str ''name'', JStr (str ''Ann'')),
               (str ''username'', JStr (str ''ann''))]"

definition bob :: json where
  "bob = JObj [(str ''id'', JStr (str ''p2'')), (str ''name'', JStr (str ''Bob'')),
               (str ''username'', JStr (str ''bob''))]"

definition cy :: json where
  "cy = JObj [(str ''id'', JStr (str ''p3'')), (str ''name'', JStr (str ''Cy'')),
              (str ''username'', JStr (str ''cy''))]"

definition friends :: "json list \<Rightarrow> json" where
  "friends ps = JObj [(str ''id'', JStr (str ''c1'')), (str ''name'', JStr (str ''Friends'')),
                      (str ''profiles'', JArr ps)]"

definition twin :: json where
  "twin = JObj [(str ''id'', JStr (str ''c1'')), (str ''name'', JStr (str ''Twin'')),
                (str ''profiles'', JArr [])]"

text \<open>
  The texts of four documents: one with an entry that is not a category, the same
  without it, and that one after adding Cy to, or removing Ann from, the first category.
\<close>

definition text_mixed :: jsstring where
  \<open>text_mixed = str ''[{"id":"c1","name":"Friends","profiles":[{"id":"p1","name":"Ann","username":"ann"},{"id":"p2","name":"Bob","username":"bob"}]},{"id":"c1","name":"Twin","profiles":[]},5]''\<close>

definition text_read :: jsstring where
  \<open>text_read = str ''[{"id":"c1","name":"Friends","profiles":[{"id":"p1","name":"Ann","username":"ann"},{"id":"p2","name":"Bob","username":"bob"}]},{"id":"c1","name":"Twin","profiles":[]}]''\<close>

definition text_added :: jsstring where
  \<open>text_added = str ''[{"id":"c1","name":"Friends","profiles":[{"id":"p1","name":"Ann","username":"ann"},{"id":"p2","name":"Bob","username":"bob"},{"id":"p3","name":"Cy","username":"cy"}]},{"id":"c1","name":"Twin","profiles":[]}]''\<close>

definition text_removed :: jsstring where
  \<open>text_removed = str ''[{"id":"c1","name":"Friends","profiles":[{"id":"p2","name":"Bob","username":"bob"}]},{"id":"c1","name":"Twin","profiles":[]}]''\<close>

text \<open>
  What \<open>JSON.parse\<close> and \<open>JSON.stringify\<close> return on these texts and values. Outside the
  examples this \<open>parse\<close> refuses every text and this \<open>stringify\<close> writes \<open>null\<close>.
\<close>

definition example_JSON :: JSON where
  \<open>example_JSON =
     \<lparr>parse = map_of
        [(text_mixed, JArr [friends [ann, bob], twin, JNum (Finite 5)]),
         (text_read, JArr [friends [ann, bob], twin]),
         (text_added, JArr [friends [ann, bob, cy], twin]),
         (text_removed, JArr [friends [bob], twin]),
         (str ''{"id":"c1"}'', JObj [(str ''id'', JStr (str ''c1''))])],
      stringify = (\<lambda>v.
        case map_of
          [(JArr [friends [ann, bob], twin], text_read),
           (JArr [friends [ann, bob, cy], twin], text_added),
           (JArr [friends [bob], twin], text_removed)] v
        of Some t \<Rightarrow> t | None \<Rightarrow> str ''null'')\<rparr>\<close>

text \<open>
  A storage whose slot holds the text \<open>raw\<close>: one that has room for every write, and one
  whose quota is used up.
\<close>

definition example_storage :: "jsstring \<Rightarrow> localStorage" where
  "example_storage raw =
     \<lparr>items = [STORAGE_KEY \<mapsto> raw], accessible = True, accepts = (\<lambda>k v. True)\<rparr>"

definition full_storage :: "jsstring \<Rightarrow> localStorage" where
  "full_storage raw =
     \<lparr>items = [STORAGE_KEY \<mapsto> raw], accessible = True, accepts = (\<lambda>k v. False)\<rparr>"

text \<open>
  A document with a number that is too large for a double, in a profiles array (the type
  guard does not look into the array), and what the platform's JSON does with it: the
  numeral parses to an infinity, which is written back as \<open>null\<close>.
\<close>

definition text_overflow :: jsstring where
  \<open>text_overflow = str ''[{"id":"c1","name":"Friends","profiles":[1e309]}]''\<close>

definition text_null :: jsstring where
  \<open>text_null = str ''[{"id":"c1","name":"Friends","profiles":[null]}]''\<close>

definition overflow_JSON :: JSON where
  "overflow_JSON =
     \<lparr>parse = map_of
        [(text_overflow, JArr [friends [JNum Infinity]]),
         (text_null, JArr [friends [JNull]])],
      stringify = (\<lambda>v.
        case map_of
          [(JArr [friends [JNum Infinity]], text_null),
           (JArr [friends [JNull]], text_null)] v
        of Some t \<Rightarrow> t | None \<Rightarrow> str ''null'')\<rparr>"

text \<open>
  A state for \<open>createCategory\<close>: one array in the store (its elements stand for two
  profile objects), an identifier supply that never repeats, one identifier already
  handed out.
\<close>

definition example_world :: "nat world" where
  "example_world =
     \<lparr>arrays = [[1, 2]], uuids = (\<lambda>n. str ''uuid-'' @ replicate n 0x78), uuid_calls = 1,
      storage = example_storage text_read\<rparr>"

section \<open>Properties of the normalizer\<close>

subsection \<open>Path segments\<close>

lemma split_from_takeWhile:
  "split_from sep acc s =
     (rev acc @ takeWhile (\<lambda>c. c \<noteq> sep) s) #
     (case dropWhile (\<lambda>c. c \<noteq> sep) s of [] \<Rightarrow> [] | _ # t \<Rightarrow> split_from sep [] t)"
  by (induction s arbitrary: acc) auto

lemma split_Nil: "split sep [] = [[]]"
  by (simp add: split_def)

lemma split_sep_Cons: "split sep (sep # cs) = [] # split sep cs"
  by (simp add: split_def)

lemma split_other_Cons:
  "c \<noteq> sep \<Longrightarrow>
   split sep (c # cs) =
     (c # takeWhile (\<lambda>c. c \<noteq> sep) cs) #
     (case dropWhile (\<lambda>c. c \<noteq> sep) cs of [] \<Rightarrow> [] | _ # t \<Rightarrow> split sep t)"
  by (simp add: split_def split_from_takeWhile [of sep "[c]"] cong: list.case_cong)

lemma first_segment:
  "filter (\<lambda>s. s \<noteq> []) (split sep s) = x # xs \<Longrightarrow>
   \<exists>k rest. s = replicate k sep @ x @ rest \<and> x \<noteq> [] \<and> sep \<notin> set x \<and>
     (rest = [] \<or> hd rest = sep)"
proof (induction s)
  case Nil
  then show ?case by (simp add: split_Nil)
next
  case (Cons c cs)
  show ?case
  proof (cases "c = sep")
    case True
    with Cons.prems have "filter (\<lambda>s. s \<noteq> []) (split sep cs) = x # xs"
      by (simp add: split_sep_Cons)
    then obtain k rest where
      "cs = replicate k sep @ x @ rest" "x \<noteq> []" "sep \<notin> set x" "rest = [] \<or> hd rest = sep"
      using Cons.IH by blast
    then have "c # cs = replicate (Suc k) sep @ x @ rest"
      using True by simp
    then show ?thesis
      using \<open>x \<noteq> []\<close> \<open>sep \<notin> set x\<close> \<open>rest = [] \<or> hd rest = sep\<close> by blast
  next
    case False
    let ?t = "takeWhile (\<lambda>c. c \<noteq> sep) cs" and ?d = "dropWhile (\<lambda>c. c \<noteq> sep) cs"
    from False Cons.prems have x: "x = c # ?t"
      by (simp add: split_other_Cons)
    have "c # cs = replicate 0 sep @ x @ ?d"
      by (simp add: x)
    moreover have "sep \<notin> set x"
      using False by (auto simp: x dest: set_takeWhileD)
    moreover have "?d = [] \<or> hd ?d = sep"
      using hd_dropWhile [of "\<lambda>c. c \<noteq> sep" cs] by auto
    ultimately show ?thesis
      using x by blast
  qed
qed

lemma no_segment:
  "filter (\<lambda>s. s \<noteq> []) (split sep s) = [] \<longleftrightarrow> set s \<subseteq> {sep}"
proof (induction s)
  case Nil
  show ?case by (simp add: split_Nil)
next
  case (Cons c cs)
  show ?case
  proof (cases "c = sep")
    case True
    then show ?thesis using Cons.IH by (simp add: split_sep_Cons)
  next
    case False
    then show ?thesis by (simp add: split_other_Cons)
  qed
qed

lemma normalizeInstagramUrl_Some:
  assumes "normalizeInstagramUrl new_URL raw = Some r"
  shows "\<exists>u k rest. new_URL raw = Some u \<and> trim raw \<noteq> [] \<and>
           test_instagram_com (replace_www (hostname u)) \<and>
           pathname u = replicate k 0x2F @ username r @ rest \<and>
           username r \<noteq> [] \<and> 0x2F \<notin> set (username r) \<and> (rest = [] \<or> hd rest = 0x2F) \<and>
           r = \<lparr>username = username r, url = str ''https://instagram.com/'' @ username r\<rparr>"
proof -
  from assms obtain u where u: "new_URL raw = Some u" and t: "trim raw \<noteq> []"
    by (auto simp: normalizeInstagramUrl_def split: if_splits option.splits)
  from assms u t have h: "test_instagram_com (replace_www (hostname u))"
    by (auto simp: normalizeInstagramUrl_def Let_def split: if_splits)
  from assms u t h obtain x xs where
    p: "filter (\<lambda>s. s \<noteq> []) (split 0x2F (pathname u)) = x # xs"
    and r: "r = \<lparr>username = x, url = str ''https://instagram.com/'' @ x\<rparr>"
    by (auto simp: normalizeInstagramUrl_def Let_def split: if_splits list.splits)
  from first_segment [OF p] obtain k rest where
    "pathname u = replicate k 0x2F @ x @ rest" "x \<noteq> []" "0x2F \<notin> set x"
    "rest = [] \<or> hd rest = 0x2F"
    by blast
  with u t h r show ?thesis by auto
qed

text \<open>
  C1. Claim: a URL whose host is not exactly the Instagram domain (after an optional
  leading \<open>www.\<close>, ignoring case) is rejected, and in particular
  \<open>https://notinstagram.com/jdoe\<close> gives \<open>null\<close>. The code tests the host with a
  pattern anchored at the end only, so on this URL both copies of the function return
  the user \<open>jdoe\<close> instead of \<open>null\<close>.
\<close>

theorem normalizeInstagramUrl_notinstagram:
  "normalizeInstagramUrl example_URL (str ''https://notinstagram.com/jdoe'') =
     Some \<lparr>username = str ''jdoe'', url = str ''https://instagram.com/jdoe''\<rparr> \<and>
   normalizeInstagramUrl_app example_URL (str ''https://notinstagram.com/jdoe'') =
     Some \<lparr>username = str ''jdoe'', url = str ''https://instagram.com/jdoe''\<rparr>"
  by (simp add: normalizeInstagramUrl_def normalizeInstagramUrl_app_def example_URL_def
      str_def trim_def isWhiteSpace_def replace_www_def test_instagram_com_def
      canonicalize_def split_def)

text \<open>
  C7. Whenever \<open>normalizeInstagramUrl\<close> succeeds, the path of the parsed URL is some
  slashes, then the returned username, then nothing or a slash and more: the username
  is the first non-empty path segment, unchanged. The returned URL is
  \<open>https://instagram.com/\<close> followed by that username, so nothing else of the input
  (scheme, case of the host, later segments, query, fragment) is in the result. Blank
  input, a URL the parser refuses and a path without a segment give \<open>null\<close>. The
  function is total: every exception of the \<open>try\<close> block is a \<open>None\<close>.
\<close>

theorem normalizeInstagramUrl_result:
  "(\<forall>r. normalizeInstagramUrl new_URL raw = Some r \<longrightarrow>
      (\<exists>u k rest. new_URL raw = Some u \<and>
         pathname u = replicate k 0x2F @ username r @ rest \<and>
         username r \<noteq> [] \<and> 0x2F \<notin> set (username r) \<and> (rest = [] \<or> hd rest = 0x2F) \<and>
         r = \<lparr>username = username r, url = str ''https://instagram.com/'' @ username r\<rparr>)) \<and>
   (trim raw = [] \<longrightarrow> normalizeInstagramUrl new_URL raw = None) \<and>
   (new_URL raw = None \<longrightarrow> normalizeInstagramUrl new_URL raw = None) \<and>
   (\<forall>u. new_URL raw = Some u \<and> set (pathname u) \<subseteq> {0x2F} \<longrightarrow>
      normalizeInstagramUrl new_URL raw = None)"
proof (intro conjI allI impI)
  fix r
  assume "normalizeInstagramUrl new_URL raw = Some r"
  from normalizeInstagramUrl_Some [OF this]
  show "\<exists>u k rest. new_URL raw = Some u \<and>
         pathname u = replicate k 0x2F @ username r @ rest \<and>
         username r \<noteq> [] \<and> 0x2F \<notin> set (username r) \<and> (rest = [] \<or> hd rest = 0x2F) \<and>
         r = \<lparr>username = username r, url = str ''https://instagram.com/'' @ username r\<rparr>"
    by blast
next
  assume "trim raw = []"
  then show "normalizeInstagramUrl new_URL raw = None"
    by (simp add: normalizeInstagramUrl_def)
next
  assume "new_URL raw = None"
  then show "normalizeInstagramUrl new_URL raw = None"
    by (simp add: normalizeInstagramUrl_def)
next
  fix u
  assume "new_URL raw = Some u \<and> set (pathname u) \<subseteq> {0x2F}"
  then have "new_URL raw = Some u"
    and "filter (\<lambda>s. s \<noteq> []) (split 0x2F (pathname u)) = []"
    by (simp_all only: no_segment)
  then show "normalizeInstagramUrl new_URL raw = None"
    by (simp add: normalizeInstagramUrl_def Let_def)
qed

theorem normalizeInstagramUrl_result_witness:
  "normalizeInstagramUrl example_URL (str ''https://www.instagram.com/jdoe/?x=1'') =
     Some \<lparr>username = str ''jdoe'', url = str ''https://instagram.com/jdoe''\<rparr> \<and>
   (\<exists>u k rest. example_URL (str ''https://www.instagram.com/jdoe/?x=1'') = Some u \<and>
      pathname u = replicate k 0x2F @ str ''jdoe'' @ rest \<and> (rest = [] \<or> hd rest = 0x2F)) \<and>
   normalizeInstagramUrl example_URL (str ''HTTP://WWW.Instagram.COM//jdoe/posts#top'') =
     Some \<lparr>username = str ''jdoe'', url = str ''https://instagram.com/jdoe''\<rparr> \<and>
   trim (str '' '') = [] \<and>
   normalizeInstagramUrl example_URL (str '' '') = None \<and>
   example_URL (str ''instagram'') = None \<and>
   normalizeInstagramUrl example_URL (str ''instagram'') = None \<and>
   example_URL (str ''https://instagram.com'') =
     Some \<lparr>hostname = str ''instagram.com'', pathname = str ''/''\<rparr> \<and>
   normalizeInstagramUrl example_URL (str ''https://instagram.com'') = None"
proof -
  let ?raw = "str ''https://www.instagram.com/jdoe/?x=1''"
  let ?r = "\<lparr>username = str ''jdoe'', url = str ''https://instagram.com/jdoe''\<rparr>"
  have ok: "normalizeInstagramUrl example_URL ?raw = Some ?r"
    by (simp add: normalizeInstagramUrl_def example_URL_def str_def trim_def isWhiteSpace_def
        replace_www_def test_instagram_com_def canonicalize_def split_def)
  note first = normalizeInstagramUrl_result
    [of example_URL ?raw, THEN conjunct1, THEN spec, of ?r, THEN mp, OF ok]
  have seg: "\<exists>u k rest. example_URL ?raw = Some u \<and>
      pathname u = replicate k 0x2F @ str ''jdoe'' @ rest \<and> (rest = [] \<or> hd rest = 0x2F)"
    using first unfolding NormalizedInstagramUrl.select_convs
    by (elim exE conjE) (intro exI conjI; assumption)
  have blank: "trim (str '' '') = []"
    by (simp add: str_def trim_def isWhiteSpace_def)
  have blank_None: "normalizeInstagramUrl example_URL (str '' '') = None"
    using normalizeInstagramUrl_result [of example_URL "str '' ''", THEN conjunct2, THEN conjunct1]
      blank
    by (rule mp)
  have refused: "example_URL (str ''instagram'') = None"
    by (simp add: example_URL_def str_def)
  have refused_None: "normalizeInstagramUrl example_URL (str ''instagram'') = None"
    using normalizeInstagramUrl_result
      [of example_URL "str ''instagram''", THEN conjunct2, THEN conjunct2, THEN conjunct1]
      refused
    by (rule mp)
  let ?root = "\<lparr>hostname = str ''instagram.com'', pathname = str ''/''\<rparr>"
  have root: "example_URL (str ''https://instagram.com'') = Some ?root"
    by (simp add: example_URL_def str_def)
  have slashes: "set (pathname ?root) \<subseteq> {0x2F}"
    by (simp add: str_def)
  have root_None: "normalizeInstagramUrl example_URL (str ''https://instagram.com'') = None"
    using normalizeInstagramUrl_result
      [of example_URL "str ''https://instagram.com''", THEN conjunct2, THEN conjunct2,
       THEN conjunct2, THEN spec, of ?root, THEN mp, OF conjI, OF root slashes]
    by assumption
  have other:
    "normalizeInstagramUrl example_URL (str ''HTTP://WWW.Instagram.COM//jdoe/posts#top'') =
       Some ?r"
    by (simp add: normalizeInstagramUrl_def example_URL_def str_def trim_def isWhiteSpace_def
        replace_www_def test_instagram_com_def canonicalize_def split_def)
  from ok seg other blank blank_None refused refused_None root root_None
  show ?thesis by (intro conjI) assumption+
qed

subsection \<open>Percent-encoding\<close>

lemma prepend_Inr: "prepend s (Inr t) = Inr (s @ t)"
  by (simp add: prepend_def)

lemma prepend_Inl: "prepend s (Inl e) = Inl e"
  by (simp add: prepend_def)

lemma prepend_eq_Inl: "prepend s r = Inl e \<longleftrightarrow> r = Inl e"
  by (cases r) (simp_all add: prepend_def)

lemma uriUnreserved_not_surrogate:
  "uriUnreserved c \<Longrightarrow> \<not> isTrailingSurrogate c \<and> \<not> isLeadingSurrogate c"
  unfolding uriUnreserved_def isTrailingSurrogate_def isLeadingSurrogate_def
  by (auto simp: word_le_nat_alt)

lemma encodeURIComponent_error: "encodeURIComponent s = Inl e \<Longrightarrow> e = URIError"
  by (induction s arbitrary: e rule: encodeURIComponent.induct)
    (auto simp: prepend_eq_Inl split: if_splits list.splits)

lemma encodeURIComponent_ill_formed:
  "\<not> isWellFormed s \<Longrightarrow> encodeURIComponent s = Inl URIError"
proof (induction s rule: encodeURIComponent.induct)
  case 1
  then show ?case by simp
next
  case (2 c cs)
  show ?case
  proof (cases "uriUnreserved c")
    case True
    with "2.prems" have "\<not> isWellFormed cs"
      by (simp add: uriUnreserved_not_surrogate)
    with "2.IH"(1) True show ?thesis
      by (simp add: prepend_Inl)
  next
    case False
    note nu = this
    show ?thesis
    proof (cases "isTrailingSurrogate c")
      case True
      with nu show ?thesis by simp
    next
      case False
      note nt = this
      show ?thesis
      proof (cases "isLeadingSurrogate c")
        case True
        note lead = this
        show ?thesis
        proof (cases cs)
          case Nil
          with nu nt lead show ?thesis by simp
        next
          case (Cons d ds)
          show ?thesis
          proof (cases "isTrailingSurrogate d")
            case True
            with "2.prems" nt lead Cons have "\<not> isWellFormed ds" by simp
            with "2.IH"(2) [OF nu nt lead Cons True] nu nt lead Cons True show ?thesis
              by (simp add: prepend_Inl)
          next
            case False
            with nu nt lead Cons show ?thesis by simp
          qed
        qed
      next
        case False
        with "2.prems" nt have "\<not> isWellFormed cs" by simp
        with "2.IH"(3) [OF nu nt False] nu nt False show ?thesis
          by (simp add: prepend_Inl)
      qed
    qed
  qed
qed

lemma hexDigit_unreserved: "n < 16 \<Longrightarrow> uriUnreserved (hexDigit n)"
proof -
  assume "n < 16"
  then have "n \<in> {0, 1, 2, 3, 4, 5, 6, 7, 8, 9, 10, 11, 12, 13, 14, 15}"
    by (simp only: insert_iff empty_iff) arith
  then show ?thesis
    by (auto simp: hexDigit_def uriUnreserved_def)
qed

lemma escapeOctet_chars:
  "b < 256 \<Longrightarrow> c \<in> set (escapeOctet b) \<Longrightarrow> uriUnreserved c \<or> c = 0x25"
  by (auto simp: escapeOctet_def intro!: hexDigit_unreserved)

lemma utf8_octets: "cp < 0x110000 \<Longrightarrow> b \<in> set (utf8 cp) \<Longrightarrow> b < 256"
  by (auto simp: utf8_def split: if_splits)

lemma escapeCodePoint_chars:
  "cp < 0x110000 \<Longrightarrow> c \<in> set (escapeCodePoint cp) \<Longrightarrow> uriUnreserved c \<or> c = 0x25"
  by (auto simp: escapeCodePoint_def dest: utf8_octets escapeOctet_chars)

lemma unat_code_unit: "unat (c :: code_unit) < 0x110000"
proof -
  have "unat c < 2 ^ 16" using unsigned_less [of c] by simp
  then show ?thesis by simp
qed

lemma surrogatePair_bound:
  "isLeadingSurrogate c \<Longrightarrow> isTrailingSurrogate d \<Longrightarrow> surrogatePairToCodePoint c d < 0x110000"
  unfolding isLeadingSurrogate_def isTrailingSurrogate_def surrogatePairToCodePoint_def
  by (auto simp: word_le_nat_alt)

lemma encodeURIComponent_well_formed:
  "isWellFormed s \<Longrightarrow>
   \<exists>enc. encodeURIComponent s = Inr enc \<and> (\<forall>c \<in> set enc. uriUnreserved c \<or> c = 0x25)"
proof (induction s rule: encodeURIComponent.induct)
  case 1
  show ?case by simp
next
  case (2 c cs)
  show ?case
  proof (cases "uriUnreserved c")
    case True
    with "2.prems" have "isWellFormed cs"
      by (simp add: uriUnreserved_not_surrogate)
    with "2.IH"(1) True obtain enc where
      "encodeURIComponent cs = Inr enc" "\<forall>c \<in> set enc. uriUnreserved c \<or> c = 0x25"
      by blast
    with True show ?thesis by (simp add: prepend_Inr)
  next
    case False
    note nu = this
    from "2.prems" have nt: "\<not> isTrailingSurrogate c" by (simp split: if_splits)
    show ?thesis
    proof (cases "isLeadingSurrogate c")
      case True
      with "2.prems" nt obtain d ds where
        cs: "cs = d # ds" and d: "isTrailingSurrogate d" and wf: "isWellFormed ds"
        by (auto split: list.splits)
      from "2.IH"(2) [OF nu nt True cs d wf] obtain enc where
        enc: "encodeURIComponent ds = Inr enc" "\<forall>c \<in> set enc. uriUnreserved c \<or> c = 0x25"
        by blast
      have "\<forall>x \<in> set (escapeCodePoint (surrogatePairToCodePoint c d)). uriUnreserved x \<or> x = 0x25"
        using escapeCodePoint_chars [OF surrogatePair_bound [OF True d]] by blast
      with enc nu nt True cs d show ?thesis
        by (auto simp: prepend_Inr)
    next
      case False
      with "2.prems" nt have wf: "isWellFormed cs" by simp
      from "2.IH"(3) [OF nu nt False wf] obtain enc where
        enc: "encodeURIComponent cs = Inr enc" "\<forall>c \<in> set enc. uriUnreserved c \<or> c = 0x25"
        by blast
      have "\<forall>x \<in> set (escapeCodePoint (unat c)). uriUnreserved x \<or> x = 0x25"
        using escapeCodePoint_chars [OF unat_code_unit] by blast
      with enc nu nt False show ?thesis
        by (auto simp: prepend_Inr)
    qed
  qed
qed

lemma encodeURIComponent_unreserved:
  "\<forall>c \<in> set s. uriUnreserved c \<Longrightarrow> encodeURIComponent s = Inr s"
  by (induction s) (simp_all add: prepend_Inr)

text \<open>
  C8, as the claim states it, fails: a username that is not blank but holds a surrogate
  code unit without its partner makes \<open>encodeURIComponent\<close> raise a URIError, so
  \<open>instaDeepLink\<close> neither throws its TypeError nor returns the two links.
\<close>

theorem instaDeepLink_lone_surrogate:
  "trim [0xD800] \<noteq> [] \<and> instaDeepLink [0xD800] = Inl URIError"
  by (simp add: trim_def isWhiteSpace_def instaDeepLink_def uriUnreserved_def
      isTrailingSurrogate_def isLeadingSurrogate_def)

text \<open>
  C8, amended. \<open>instaDeepLink\<close> throws its TypeError exactly when the username is empty
  or only whitespace. For every other username that is well-formed UTF-16 it returns
  \<open>instagram://user?username=\<close> and \<open>https://instagram.com/\<close>, each followed by the
  percent-encoded username, in which only unreserved characters and \<open>%\<close> occur (a
  username of unreserved characters is unchanged). For a username that is not blank and
  not well-formed, the encoder's URIError reaches the caller.
\<close>

theorem instaDeepLink_result:
  "((\<exists>m. instaDeepLink u = Inl (TypeError m)) \<longleftrightarrow> trim u = []) \<and>
   (trim u \<noteq> [] \<and> isWellFormed u \<longrightarrow>
      (\<exists>enc. encodeURIComponent u = Inr enc \<and>
         (\<forall>c \<in> set enc. uriUnreserved c \<or> c = 0x25) \<and>
         ((\<forall>c \<in> set u. uriUnreserved c) \<longrightarrow> enc = u) \<and>
         instaDeepLink u =
           Inr \<lparr>appUrl = str ''instagram://user?username='' @ enc,
                webUrl = str ''https://instagram.com/'' @ enc\<rparr>)) \<and>
   (trim u \<noteq> [] \<and> \<not> isWellFormed u \<longrightarrow> instaDeepLink u = Inl URIError)"
proof (intro conjI impI)
  show "(\<exists>m. instaDeepLink u = Inl (TypeError m)) \<longleftrightarrow> trim u = []"
    by (auto simp: instaDeepLink_def split: sum.splits dest: encodeURIComponent_error)
next
  assume a: "trim u \<noteq> [] \<and> isWellFormed u"
  then obtain enc where
    enc: "encodeURIComponent u = Inr enc" "\<forall>c \<in> set enc. uriUnreserved c \<or> c = 0x25"
    using encodeURIComponent_well_formed by blast
  have "(\<forall>c \<in> set u. uriUnreserved c) \<longrightarrow> enc = u"
    using enc(1) encodeURIComponent_unreserved [of u] by auto
  moreover have "instaDeepLink u =
      Inr \<lparr>appUrl = str ''instagram://user?username='' @ enc,
           webUrl = str ''https://instagram.com/'' @ enc\<rparr>"
    using a enc(1) by (simp add: instaDeepLink_def)
  ultimately show "\<exists>enc. encodeURIComponent u = Inr enc \<and>
         (\<forall>c \<in> set enc. uriUnreserved c \<or> c = 0x25) \<and>
         ((\<forall>c \<in> set u. uriUnreserved c) \<longrightarrow> enc = u) \<and>
         instaDeepLink u =
           Inr \<lparr>appUrl = str ''instagram://user?username='' @ enc,
                webUrl = str ''https://instagram.com/'' @ enc\<rparr>"
    using enc by blast
next
  assume "trim u \<noteq> [] \<and> \<not> isWellFormed u"
  then show "instaDeepLink u = Inl URIError"
    by (simp add: instaDeepLink_def encodeURIComponent_ill_formed)
qed

theorem instaDeepLink_result_witness:
  "trim (str ''jdoe'') \<noteq> [] \<and> isWellFormed (str ''jdoe'') \<and>
   instaDeepLink (str ''jdoe'') =
     Inr \<lparr>appUrl = str ''instagram://user?username='' @ str ''jdoe'',
          webUrl = str ''https://instagram.com/'' @ str ''jdoe''\<rparr> \<and>
   trim (str ''a b/'' @ [0xE9, 0xD83D, 0xDE00]) \<noteq> [] \<and>
   isWellFormed (str ''a b/'' @ [0xE9, 0xD83D, 0xDE00]) \<and>
   instaDeepLink (str ''a b/'' @ [0xE9, 0xD83D, 0xDE00]) =
     Inr \<lparr>appUrl = str ''instagram://user?username='' @ str ''a%20b%2F%C3%A9%F0%9F%98%80'',
          webUrl = str ''https://instagram.com/'' @ str ''a%20b%2F%C3%A9%F0%9F%98%80''\<rparr> \<and>
   trim (str '' '') = [] \<and>
   (\<exists>m. instaDeepLink (str '' '') = Inl (TypeError m)) \<and>
   trim (str ''x'' @ [0xDC00]) \<noteq> [] \<and> \<not> isWellFormed (str ''x'' @ [0xDC00]) \<and>
   instaDeepLink (str ''x'' @ [0xDC00]) = Inl URIError"
proof -
  let ?plain = "str ''jdoe''"
  let ?mixed = "str ''a b/'' @ [0xE9, 0xD83D, 0xDE00]"
  let ?lone = "str ''x'' @ [0xDC00]"
  have plain: "trim ?plain \<noteq> [] \<and> isWellFormed ?plain"
    by (simp add: str_def trim_def isWhiteSpace_def isTrailingSurrogate_def
        isLeadingSurrogate_def)
  have plain_enc: "encodeURIComponent ?plain = Inr ?plain"
    by (simp add: str_def uriUnreserved_def prepend_def)
  have plain_link: "instaDeepLink ?plain =
     Inr \<lparr>appUrl = str ''instagram://user?username='' @ ?plain,
          webUrl = str ''https://instagram.com/'' @ ?plain\<rparr>"
    using instaDeepLink_result [of ?plain, THEN conjunct2, THEN conjunct1, THEN mp, OF plain]
      plain_enc
    by auto
  have mixed: "trim ?mixed \<noteq> [] \<and> isWellFormed ?mixed"
    by (simp add: str_def trim_def isWhiteSpace_def isTrailingSurrogate_def
        isLeadingSurrogate_def)
  have mixed_enc: "encodeURIComponent ?mixed = Inr (str ''a%20b%2F%C3%A9%F0%9F%98%80'')"
    by (simp add: str_def uriUnreserved_def prepend_def
        isTrailingSurrogate_def isLeadingSurrogate_def escapeCodePoint_def utf8_def
        escapeOctet_def hexDigit_def surrogatePairToCodePoint_def)
  have mixed_link: "instaDeepLink ?mixed =
     Inr \<lparr>appUrl = str ''instagram://user?username='' @ str ''a%20b%2F%C3%A9%F0%9F%98%80'',
          webUrl = str ''https://instagram.com/'' @ str ''a%20b%2F%C3%A9%F0%9F%98%80''\<rparr>"
    using instaDeepLink_result [of ?mixed, THEN conjunct2, THEN conjunct1, THEN mp, OF mixed]
      mixed_enc
    by auto
  have blank: "trim (str '' '') = []"
    by (simp add: str_def trim_def isWhiteSpace_def)
  have blank_err: "\<exists>m. instaDeepLink (str '' '') = Inl (TypeError m)"
    using instaDeepLink_result [of "str '' ''", THEN conjunct1] blank
    by (rule iffD2)
  have lone: "trim ?lone \<noteq> [] \<and> \<not> isWellFormed ?lone"
    by (simp add: str_def trim_def isWhiteSpace_def isTrailingSurrogate_def
        isLeadingSurrogate_def)
  have lone_err: "instaDeepLink ?lone = Inl URIError"
    using instaDeepLink_result [of ?lone, THEN conjunct2, THEN conjunct2] lone
    by (rule mp)
  from plain plain_link mixed mixed_link blank blank_err lone lone_err
  show ?thesis by (intro conjI) (erule conjunct1 conjunct2 | assumption)+
qed

section \<open>Properties of the store\<close>

subsection \<open>Reading, searching and updating\<close>

lemma is_Category_iff:
  "is_Category item \<longleftrightarrow>
     (\<exists>kvs i n ps. item = JObj kvs \<and>
        map_of kvs (str ''id'') = Some (JStr i) \<and>
        map_of kvs (str ''name'') = Some (JStr n) \<and>
        map_of kvs (str ''profiles'') = Some (JArr ps))"
proof (cases item)
  case (JObj kvs)
  have s: "typeof_string v \<longleftrightarrow> (\<exists>s. v = Some (JStr s))" for v
    by (cases v rule: typeof_string.cases) simp_all
  have a: "isArray v \<longleftrightarrow> (\<exists>xs. v = Some (JArr xs))" for v
    by (cases v rule: isArray.cases) simp_all
  have k: "map_of kvs x = Some y \<Longrightarrow> x \<in> fst ` set kvs" for x y
    by (metis map_of_eq_None_iff option.distinct(1))
  show ?thesis
    by (auto simp: JObj is_Category_def s a dest: k)
qed (simp_all add: is_Category_def)

lemma findIndex_None: "findIndex P xs = None \<longleftrightarrow> (\<forall>x \<in> set xs. \<not> P x)"
  by (induction xs) auto

lemma findIndex_Some:
  "findIndex P xs = Some i \<Longrightarrow> i < length xs \<and> P (xs ! i) \<and> (\<forall>j < i. \<not> P (xs ! j))"
proof (induction xs arbitrary: i)
  case Nil
  then show ?case by simp
next
  case (Cons x xs)
  show ?case
  proof (cases "P x")
    case True
    with Cons.prems show ?thesis by simp
  next
    case False
    with Cons.prems obtain i' where i': "findIndex P xs = Some i'" "i = Suc i'"
      by auto
    from Cons.IH [OF i'(1)] False i'(2) show ?thesis
      by (auto simp: less_Suc_eq_0_disj)
  qed
qed

lemma find_findIndex:
  "find P xs = (case findIndex P xs of None \<Rightarrow> None | Some i \<Rightarrow> Some (xs ! i))"
  by (induction xs) (auto split: option.splits)

lemma findIndex_throwing_Some:
  "findIndex_throwing P xs = Inr (Some i) \<Longrightarrow>
   i < length xs \<and> P (xs ! i) = Inr True \<and> (\<forall>j < i. P (xs ! j) = Inr False)"
proof (induction xs arbitrary: i)
  case Nil
  then show ?case by simp
next
  case (Cons x xs)
  show ?case
  proof (cases "P x")
    case (Inl e)
    with Cons.prems show ?thesis by simp
  next
    case (Inr b)
    show ?thesis
    proof (cases b)
      case True
      with Inr Cons.prems show ?thesis by simp
    next
      case False
      with Inr Cons.prems obtain i' where
        i': "findIndex_throwing P xs = Inr (Some i')" "i = Suc i'"
        by (auto split: sum.splits)
      from Cons.IH [OF i'(1)] Inr False i'(2) show ?thesis
        by (auto simp: less_Suc_eq_0_disj)
    qed
  qed
qed

lemma readCategories_inaccessible: "\<not> accessible ls \<Longrightarrow> readCategories J ls = []"
  by (simp add: readCategories_def readCategories_try_def getItem_def)

lemma readCategories_absent: "items ls STORAGE_KEY = None \<Longrightarrow> readCategories J ls = []"
  by (simp add: readCategories_def readCategories_try_def getItem_def)

lemma readCategories_raw:
  "accessible ls \<Longrightarrow> items ls STORAGE_KEY = Some raw \<Longrightarrow>
   readCategories J ls =
     (if raw = [] then []
      else case parse J raw of Some (JArr xs) \<Rightarrow> filter is_Category xs | _ \<Rightarrow> [])"
  by (simp add: readCategories_def readCategories_try_def getItem_def
      split: option.splits json.splits)

lemma readCategories_is_Category: "c \<in> set (readCategories J ls) \<Longrightarrow> is_Category c"
  by (auto simp: readCategories_def readCategories_try_def
      split: sum.splits option.splits if_splits json.splits)

lemma readCategories_accessible: "readCategories J ls \<noteq> [] \<Longrightarrow> accessible ls"
  using readCategories_inaccessible by blast

lemma writeCategories_array:
  "writeCategories J (JArr xs) ls =
     (if accessible ls \<and> accepts ls STORAGE_KEY (stringify J (JArr xs))
      then Inr (ls\<lparr>items := (items ls)(STORAGE_KEY \<mapsto> stringify J (JArr xs))\<rparr>)
      else Inl (Error ''Failed to save categories to localStorage''))"
  by (simp add: writeCategories_def setItem_def)

lemma profiles_of_Category:
  "is_Category c \<Longrightarrow>
   \<exists>ps. get_prop c (str ''profiles'') = Some (JArr ps) \<and> profiles_of c = Inr ps"
  by (auto simp: is_Category_iff profiles_of_def member_def)

lemma with_profiles_get:
  "is_Category c \<Longrightarrow>
   get_prop (with_profiles c ps) k =
     (if k = str ''profiles'' then Some (JArr ps) else get_prop c k)"
  by (auto simp: is_Category_iff update_conv')

lemma with_profiles_is_Category: "is_Category c \<Longrightarrow> is_Category (with_profiles c ps)"
proof -
  assume c: "is_Category c"
  then obtain kvs where kvs: "c = JObj kvs"
    by (auto simp: is_Category_iff)
  have ne: "str ''id'' \<noteq> str ''profiles''" "str ''name'' \<noteq> str ''profiles''"
    by (simp_all add: str_def)
  from c have "is_Category (JObj (AList.update (str ''profiles'') (JArr ps) kvs))"
    unfolding is_Category_iff kvs by (simp add: update_conv' ne)
  then show ?thesis by (simp add: kvs)
qed

lemma profile_id_is_True:
  "profile_id_is i q = Inr True \<longleftrightarrow> get_prop q (str ''id'') = Some (JStr i)"
  by (cases q) (simp_all add: profile_id_is_def member_def)

lemma profile_id_is_False:
  "profile_id_is i q = Inr False \<Longrightarrow> get_prop q (str ''id'') \<noteq> Some (JStr i)"
  by (cases q) (simp_all add: profile_id_is_def member_def)

lemma addProfileToCategory_None:
  "findIndex (id_is cid) (readCategories J ls) = None \<Longrightarrow>
   addProfileToCategory J ls cid p = Inr (False, ls)"
  by (simp add: addProfileToCategory_def)

lemma found_Category:
  assumes "findIndex (id_is cid) (readCategories J ls) = Some i"
  shows "i < length (readCategories J ls)" and "is_Category (readCategories J ls ! i)"
    and "accessible ls"
proof -
  from findIndex_Some [OF assms] show i: "i < length (readCategories J ls)" by simp
  then show "is_Category (readCategories J ls ! i)"
    using readCategories_is_Category nth_mem by blast
  from i have "readCategories J ls \<noteq> []" by auto
  then show "accessible ls" by (rule readCategories_accessible)
qed

lemma addProfileToCategory_Some:
  assumes "findIndex (id_is cid) (readCategories J ls) = Some i"
  shows "\<exists>ps. get_prop (readCategories J ls ! i) (str ''profiles'') = Some (JArr ps) \<and>
     addProfileToCategory J ls cid p =
       (if accepts ls STORAGE_KEY (stringify J (JArr ((readCategories J ls)
             [i := with_profiles (readCategories J ls ! i) (ps @ [p])])))
        then Inr (True, ls\<lparr>items := (items ls)(STORAGE_KEY \<mapsto>
               stringify J (JArr ((readCategories J ls)
                 [i := with_profiles (readCategories J ls ! i) (ps @ [p])])))\<rparr>)
        else Inl (Error ''Failed to save categories to localStorage''))"
proof -
  from found_Category [OF assms] have c: "is_Category (readCategories J ls ! i)"
    and a: "accessible ls" by simp_all
  from profiles_of_Category [OF c] obtain ps where
    ps: "get_prop (readCategories J ls ! i) (str ''profiles'') = Some (JArr ps)"
      "profiles_of (readCategories J ls ! i) = Inr ps"
    by blast
  have "addProfileToCategory J ls cid p =
       (if accepts ls STORAGE_KEY (stringify J (JArr ((readCategories J ls)
             [i := with_profiles (readCategories J ls ! i) (ps @ [p])])))
        then Inr (True, ls\<lparr>items := (items ls)(STORAGE_KEY \<mapsto>
               stringify J (JArr ((readCategories J ls)
                 [i := with_profiles (readCategories J ls ! i) (ps @ [p])])))\<rparr>)
        else Inl (Error ''Failed to save categories to localStorage''))"
    by (simp add: addProfileToCategory_def Let_def assms ps(2) writeCategories_array a)
  with ps(1) show ?thesis by blast
qed

lemma removeProfileFromCategory_None:
  "findIndex (id_is cid) (readCategories J ls) = None \<Longrightarrow>
   removeProfileFromCategory J ls cid pid = Inr (False, ls)"
  by (simp add: removeProfileFromCategory_def)

lemma removeProfileFromCategory_Some:
  assumes "findIndex (id_is cid) (readCategories J ls) = Some i"
  shows "\<exists>ps. get_prop (readCategories J ls ! i) (str ''profiles'') = Some (JArr ps) \<and>
     removeProfileFromCategory J ls cid pid =
       (case findIndex_throwing (profile_id_is pid) ps of
          Inl e \<Rightarrow> Inl e
        | Inr None \<Rightarrow> Inr (False, ls)
        | Inr (Some k) \<Rightarrow>
            if accepts ls STORAGE_KEY (stringify J (JArr ((readCategories J ls)
                 [i := with_profiles (readCategories J ls ! i) (take k ps @ drop (Suc k) ps)])))
            then Inr (True, ls\<lparr>items := (items ls)(STORAGE_KEY \<mapsto>
                   stringify J (JArr ((readCategories J ls)
                     [i := with_profiles (readCategories J ls ! i)
                             (take k ps @ drop (Suc k) ps)])))\<rparr>)
            else Inl (Error ''Failed to save categories to localStorage''))"
proof -
  from found_Category [OF assms] have c: "is_Category (readCategories J ls ! i)"
    and a: "accessible ls" by simp_all
  from profiles_of_Category [OF c] obtain ps where
    ps: "get_prop (readCategories J ls ! i) (str ''profiles'') = Some (JArr ps)"
      "profiles_of (readCategories J ls ! i) = Inr ps"
    by blast
  have "removeProfileFromCategory J ls cid pid =
       (case findIndex_throwing (profile_id_is pid) ps of
          Inl e \<Rightarrow> Inl e
        | Inr None \<Rightarrow> Inr (False, ls)
        | Inr (Some k) \<Rightarrow>
            if accepts ls STORAGE_KEY (stringify J (JArr ((readCategories J ls)
                 [i := with_profiles (readCategories J ls ! i) (take k ps @ drop (Suc k) ps)])))
            then Inr (True, ls\<lparr>items := (items ls)(STORAGE_KEY \<mapsto>
                   stringify J (JArr ((readCategories J ls)
                     [i := with_profiles (readCategories J ls ! i)
                             (take k ps @ drop (Suc k) ps)])))\<rparr>)
            else Inl (Error ''Failed to save categories to localStorage''))"
    by (simp add: removeProfileFromCategory_def Let_def assms ps(2) writeCategories_array a
        split: sum.splits option.splits)
  with ps(1) show ?thesis by blast
qed

lemma addProfileToCategory_first:
  assumes "\<exists>c \<in> set (readCategories J ls). id_is cid c"
  shows "\<exists>i kvs ps.
      i < length (readCategories J ls) \<and> id_is cid (readCategories J ls ! i) \<and>
      (\<forall>j < i. \<not> id_is cid (readCategories J ls ! j)) \<and>
      readCategories J ls ! i = JObj kvs \<and>
      map_of kvs (str ''profiles'') = Some (JArr ps) \<and>
      addProfileToCategory J ls cid p =
        (if accepts ls STORAGE_KEY (stringify J (JArr ((readCategories J ls)
              [i := JObj (AList.update (str ''profiles'') (JArr (ps @ [p])) kvs)])))
         then Inr (True, ls\<lparr>items := (items ls)(STORAGE_KEY \<mapsto>
                stringify J (JArr ((readCategories J ls)
                  [i := JObj (AList.update (str ''profiles'') (JArr (ps @ [p])) kvs)])))\<rparr>)
         else Inl (Error ''Failed to save categories to localStorage''))"
proof -
  let ?cats = "readCategories J ls"
  from assms have "findIndex (id_is cid) ?cats \<noteq> None"
    by (simp add: findIndex_None)
  then obtain i where i: "findIndex (id_is cid) ?cats = Some i" by blast
  from findIndex_Some [OF i] have f: "i < length ?cats" "id_is cid (?cats ! i)"
    "\<forall>j < i. \<not> id_is cid (?cats ! j)" by simp_all
  from found_Category [OF i] have "is_Category (?cats ! i)" by simp
  then obtain kvs qs where kvs: "?cats ! i = JObj kvs"
    and qs: "map_of kvs (str ''profiles'') = Some (JArr qs)"
    by (auto simp: is_Category_iff)
  from addProfileToCategory_Some [OF i, of p] obtain ps where
    ps: "get_prop (?cats ! i) (str ''profiles'') = Some (JArr ps)"
    and r: "addProfileToCategory J ls cid p =
       (if accepts ls STORAGE_KEY (stringify J (JArr (?cats
             [i := with_profiles (?cats ! i) (ps @ [p])])))
        then Inr (True, ls\<lparr>items := (items ls)(STORAGE_KEY \<mapsto>
               stringify J (JArr (?cats
                 [i := with_profiles (?cats ! i) (ps @ [p])])))\<rparr>)
        else Inl (Error ''Failed to save categories to localStorage''))"
    by blast
  from ps kvs qs have eq: "ps = qs" by simp
  have w: "with_profiles (?cats ! i) (ps @ [p]) =
      JObj (AList.update (str ''profiles'') (JArr (ps @ [p])) kvs)"
    by (simp add: kvs)
  from r have "addProfileToCategory J ls cid p =
        (if accepts ls STORAGE_KEY (stringify J (JArr (?cats
              [i := JObj (AList.update (str ''profiles'') (JArr (ps @ [p])) kvs)])))
         then Inr (True, ls\<lparr>items := (items ls)(STORAGE_KEY \<mapsto>
                stringify J (JArr (?cats
                  [i := JObj (AList.update (str ''profiles'') (JArr (ps @ [p])) kvs)])))\<rparr>)
         else Inl (Error ''Failed to save categories to localStorage''))"
    by (simp only: w)
  with f kvs qs eq show ?thesis by blast
qed

lemma updated_document:
  assumes "i < length cats" and "is_Category (cats ! i)"
  shows "length (cats[i := with_profiles (cats ! i) qs]) = length cats"
    and "\<forall>j. j < length cats \<and> j \<noteq> i \<longrightarrow> cats[i := with_profiles (cats ! i) qs] ! j = cats ! j"
    and "\<forall>k. get_prop (cats[i := with_profiles (cats ! i) qs] ! i) k =
           (if k = str ''profiles'' then Some (JArr qs) else get_prop (cats ! i) k)"
  using assms by (simp_all add: with_profiles_get)

lemma addProfileToCategory_True:
  assumes "addProfileToCategory J ls cid p = Inr (True, ls')"
  shows "\<exists>i ps. findIndex (id_is cid) (readCategories J ls) = Some i \<and>
     get_prop (readCategories J ls ! i) (str ''profiles'') = Some (JArr ps) \<and>
     ls' = ls\<lparr>items := (items ls)(STORAGE_KEY \<mapsto> stringify J (JArr ((readCategories J ls)
              [i := with_profiles (readCategories J ls ! i) (ps @ [p])])))\<rparr>"
proof (cases "findIndex (id_is cid) (readCategories J ls)")
  case None
  from addProfileToCategory_None [OF None] assms show ?thesis by simp
next
  case (Some i)
  from addProfileToCategory_Some [OF Some, of p] obtain ps where
    ps: "get_prop (readCategories J ls ! i) (str ''profiles'') = Some (JArr ps)"
    and r: "addProfileToCategory J ls cid p =
       (if accepts ls STORAGE_KEY (stringify J (JArr ((readCategories J ls)
             [i := with_profiles (readCategories J ls ! i) (ps @ [p])])))
        then Inr (True, ls\<lparr>items := (items ls)(STORAGE_KEY \<mapsto>
               stringify J (JArr ((readCategories J ls)
                 [i := with_profiles (readCategories J ls ! i) (ps @ [p])])))\<rparr>)
        else Inl (Error ''Failed to save categories to localStorage''))"
    by blast
  from r assms have "ls' = ls\<lparr>items := (items ls)(STORAGE_KEY \<mapsto>
               stringify J (JArr ((readCategories J ls)
                 [i := with_profiles (readCategories J ls ! i) (ps @ [p])])))\<rparr>"
    by (simp split: if_splits)
  with Some ps show ?thesis by blast
qed

lemma removeProfileFromCategory_True:
  assumes "removeProfileFromCategory J ls cid pid = Inr (True, ls')"
  shows "\<exists>i ps k. findIndex (id_is cid) (readCategories J ls) = Some i \<and>
     get_prop (readCategories J ls ! i) (str ''profiles'') = Some (JArr ps) \<and>
     findIndex_throwing (profile_id_is pid) ps = Inr (Some k) \<and>
     ls' = ls\<lparr>items := (items ls)(STORAGE_KEY \<mapsto> stringify J (JArr ((readCategories J ls)
              [i := with_profiles (readCategories J ls ! i) (take k ps @ drop (Suc k) ps)])))\<rparr>"
proof (cases "findIndex (id_is cid) (readCategories J ls)")
  case None
  from removeProfileFromCategory_None [OF None] assms show ?thesis by simp
next
  case (Some i)
  from removeProfileFromCategory_Some [OF Some, of pid] obtain ps where
    ps: "get_prop (readCategories J ls ! i) (str ''profiles'') = Some (JArr ps)"
    and r: "removeProfileFromCategory J ls cid pid =
       (case findIndex_throwing (profile_id_is pid) ps of
          Inl e \<Rightarrow> Inl e
        | Inr None \<Rightarrow> Inr (False, ls)
        | Inr (Some k) \<Rightarrow>
            if accepts ls STORAGE_KEY (stringify J (JArr ((readCategories J ls)
                 [i := with_profiles (readCategories J ls ! i) (take k ps @ drop (Suc k) ps)])))
            then Inr (True, ls\<lparr>items := (items ls)(STORAGE_KEY \<mapsto>
                   stringify J (JArr ((readCategories J ls)
                     [i := with_profiles (readCategories J ls ! i)
                             (take k ps @ drop (Suc k) ps)])))\<rparr>)
            else Inl (Error ''Failed to save categories to localStorage''))"
    by blast
  from r assms obtain k where k: "findIndex_throwing (profile_id_is pid) ps = Inr (Some k)"
    by (auto split: sum.splits option.splits)
  from r assms k have "ls' = ls\<lparr>items := (items ls)(STORAGE_KEY \<mapsto>
       stringify J (JArr ((readCategories J ls)
         [i := with_profiles (readCategories J ls ! i) (take k ps @ drop (Suc k) ps)])))\<rparr>"
    by (simp split: if_splits)
  with Some ps k show ?thesis by blast
qed


lemma add_frame:
  assumes "addProfileToCategory J ls cid p = Inr (True, ls')"
  shows "\<exists>i ps doc'.
      ls' = ls\<lparr>items := (items ls)(STORAGE_KEY \<mapsto> stringify J (JArr doc'))\<rparr> \<and>
      i < length (readCategories J ls) \<and> id_is cid (readCategories J ls ! i) \<and>
      (\<forall>j < i. \<not> id_is cid (readCategories J ls ! j)) \<and>
      length doc' = length (readCategories J ls) \<and>
      (\<forall>j. j < length (readCategories J ls) \<and> j \<noteq> i \<longrightarrow> doc' ! j = readCategories J ls ! j) \<and>
      (\<forall>k. k \<noteq> str ''profiles'' \<longrightarrow>
         get_prop (doc' ! i) k = get_prop (readCategories J ls ! i) k) \<and>
      get_prop (readCategories J ls ! i) (str ''profiles'') = Some (JArr ps) \<and>
      get_prop (doc' ! i) (str ''profiles'') = Some (JArr (ps @ [p]))"
proof -
  let ?cats = "readCategories J ls"
  from addProfileToCategory_True [OF assms] obtain i ps where
    i: "findIndex (id_is cid) ?cats = Some i"
    and ps: "get_prop (?cats ! i) (str ''profiles'') = Some (JArr ps)"
    and ls': "ls' = ls\<lparr>items := (items ls)(STORAGE_KEY \<mapsto>
        stringify J (JArr (?cats[i := with_profiles (?cats ! i) (ps @ [p])])))\<rparr>"
    by blast
  from findIndex_Some [OF i] have f: "i < length ?cats" "id_is cid (?cats ! i)"
    "\<forall>j < i. \<not> id_is cid (?cats ! j)" by simp_all
  from found_Category [OF i] have c: "is_Category (?cats ! i)" by simp
  let ?doc = "?cats[i := with_profiles (?cats ! i) (ps @ [p])]"
  note u = updated_document [OF f(1) c, of "ps @ [p]"]
  have "\<forall>k. k \<noteq> str ''profiles'' \<longrightarrow> get_prop (?doc ! i) k = get_prop (?cats ! i) k"
    and "get_prop (?doc ! i) (str ''profiles'') = Some (JArr (ps @ [p]))"
    using u(3) by simp_all
  with ls' f u(1) u(2) ps show ?thesis by blast
qed

lemma remove_frame:
  assumes "removeProfileFromCategory J ls cid pid = Inr (True, ls')"
  shows "\<exists>i ps k doc'.
      ls' = ls\<lparr>items := (items ls)(STORAGE_KEY \<mapsto> stringify J (JArr doc'))\<rparr> \<and>
      i < length (readCategories J ls) \<and> id_is cid (readCategories J ls ! i) \<and>
      (\<forall>j < i. \<not> id_is cid (readCategories J ls ! j)) \<and>
      length doc' = length (readCategories J ls) \<and>
      (\<forall>j. j < length (readCategories J ls) \<and> j \<noteq> i \<longrightarrow> doc' ! j = readCategories J ls ! j) \<and>
      (\<forall>key. key \<noteq> str ''profiles'' \<longrightarrow>
         get_prop (doc' ! i) key = get_prop (readCategories J ls ! i) key) \<and>
      get_prop (readCategories J ls ! i) (str ''profiles'') = Some (JArr ps) \<and>
      k < length ps \<and> get_prop (ps ! k) (str ''id'') = Some (JStr pid) \<and>
      (\<forall>j < k. get_prop (ps ! j) (str ''id'') \<noteq> Some (JStr pid)) \<and>
      get_prop (doc' ! i) (str ''profiles'') = Some (JArr (take k ps @ drop (Suc k) ps))"
proof -
  let ?cats = "readCategories J ls"
  from removeProfileFromCategory_True [OF assms] obtain i ps k where
    i: "findIndex (id_is cid) ?cats = Some i"
    and ps: "get_prop (?cats ! i) (str ''profiles'') = Some (JArr ps)"
    and k: "findIndex_throwing (profile_id_is pid) ps = Inr (Some k)"
    and ls': "ls' = ls\<lparr>items := (items ls)(STORAGE_KEY \<mapsto>
        stringify J (JArr (?cats[i := with_profiles (?cats ! i)
          (take k ps @ drop (Suc k) ps)])))\<rparr>"
    by blast
  from findIndex_Some [OF i] have f: "i < length ?cats" "id_is cid (?cats ! i)"
    "\<forall>j < i. \<not> id_is cid (?cats ! j)" by simp_all
  from found_Category [OF i] have c: "is_Category (?cats ! i)" by simp
  from findIndex_throwing_Some [OF k] have g: "k < length ps"
    "get_prop (ps ! k) (str ''id'') = Some (JStr pid)"
    "\<forall>j < k. get_prop (ps ! j) (str ''id'') \<noteq> Some (JStr pid)"
    by (simp_all add: profile_id_is_True profile_id_is_False)
  let ?doc = "?cats[i := with_profiles (?cats ! i) (take k ps @ drop (Suc k) ps)]"
  note u = updated_document [OF f(1) c, of "take k ps @ drop (Suc k) ps"]
  have "\<forall>key. key \<noteq> str ''profiles'' \<longrightarrow> get_prop (?doc ! i) key = get_prop (?cats ! i) key"
    and "get_prop (?doc ! i) (str ''profiles'') = Some (JArr (take k ps @ drop (Suc k) ps))"
    using u(3) by simp_all
  with ls' f u(1) u(2) ps g show ?thesis by blast
qed

lemma find_first:
  "find P xs = Some c \<Longrightarrow> \<exists>i. i < length xs \<and> xs ! i = c \<and> P c \<and> (\<forall>j < i. \<not> P (xs ! j))"
proof -
  assume a: "find P xs = Some c"
  then obtain i where i: "findIndex P xs = Some i" "c = xs ! i"
    by (auto simp: find_findIndex split: option.splits)
  from findIndex_Some [OF i(1)] i(2) show ?thesis by blast
qed

lemma find_exists: "\<exists>c \<in> set xs. P c \<Longrightarrow> find P xs \<noteq> None"
  by (auto simp: find_None_iff)

subsection \<open>The examples, evaluated\<close>

lemma example_read:
  "readCategories example_JSON (example_storage text_mixed) = [friends [ann, bob], twin]"
  by (simp add: readCategories_def readCategories_try_def getItem_def
      example_storage_def example_JSON_def is_Category_def friends_def twin_def
      text_mixed_def text_read_def text_added_def text_removed_def str_def)

lemma example_read_full:
  "readCategories example_JSON (full_storage text_mixed) = [friends [ann, bob], twin]"
  by (simp add: readCategories_def readCategories_try_def getItem_def
      full_storage_def example_JSON_def is_Category_def friends_def twin_def
      text_mixed_def text_read_def text_added_def text_removed_def str_def)

lemma example_ids:
  "id_is (str ''c1'') (friends ps)" "id_is (str ''c1'') twin"
  "\<not> id_is (str ''c2'') (friends ps)" "\<not> id_is (str ''c2'') twin"
  by (simp_all add: id_is_def friends_def twin_def str_def)

lemma example_stringify:
  "stringify example_JSON (JArr [friends [ann, bob], twin]) = text_read"
  "stringify example_JSON (JArr [friends [ann, bob, cy], twin]) = text_added"
  "stringify example_JSON (JArr [friends [bob], twin]) = text_removed"
  by (simp_all add: example_JSON_def friends_def twin_def ann_def bob_def cy_def str_def)

lemma example_with_profiles: "with_profiles (friends ps) qs = friends qs"
  by (simp add: friends_def str_def)

lemma example_profiles:
  "get_prop (friends ps) (str ''profiles'') = Some (JArr ps)"
  "profiles_of (friends ps) = Inr ps"
  by (simp_all add: friends_def profiles_of_def member_def str_def)

lemma example_add:
  "addProfileToCategory example_JSON (example_storage text_mixed) (str ''c1'') cy =
     Inr (True, (example_storage text_mixed)\<lparr>items :=
       (items (example_storage text_mixed))(STORAGE_KEY \<mapsto> text_added)\<rparr>)"
  by (simp add: addProfileToCategory_def example_read example_ids example_profiles
      example_with_profiles writeCategories_array example_stringify)
    (simp add: example_storage_def)

lemma example_find_p1:
  "findIndex_throwing (profile_id_is (str ''p1'')) [ann, bob] = Inr (Some 0)"
  by (simp add: profile_id_is_def member_def ann_def bob_def str_def)

lemma example_remove:
  "removeProfileFromCategory example_JSON (example_storage text_mixed) (str ''c1'') (str ''p1'') =
     Inr (True, (example_storage text_mixed)\<lparr>items :=
       (items (example_storage text_mixed))(STORAGE_KEY \<mapsto> text_removed)\<rparr>)"
  by (simp add: removeProfileFromCategory_def example_read example_ids example_profiles
      example_with_profiles writeCategories_array example_stringify example_find_p1
      del: findIndex_throwing.simps)
    (simp add: example_storage_def)

lemma example_find:
  "findCategoryById example_JSON (example_storage text_mixed) (str ''c1'') =
     Some (friends [ann, bob])"
  "getCurrentCategory example_JSON (example_storage text_mixed) (Some (str ''c1'')) =
     Some (friends [ann, bob])"
proof -
  have "trim (str ''c1'') \<noteq> []" and "str ''c1'' \<noteq> []"
    by (simp_all add: trim_def isWhiteSpace_def str_def)
  then show "findCategoryById example_JSON (example_storage text_mixed) (str ''c1'') =
     Some (friends [ann, bob])"
    and "getCurrentCategory example_JSON (example_storage text_mixed) (Some (str ''c1'')) =
     Some (friends [ann, bob])"
    by (simp_all add: findCategoryById_def getCurrentCategory_def example_read example_ids)
qed

lemma example_supply: "inj (uuids example_world)"
proof (rule injI)
  fix n m
  assume "uuids example_world n = uuids example_world m"
  then have "replicate n (0x78 :: code_unit) = replicate m 0x78"
    by (simp add: example_world_def)
  then have "length (replicate n (0x78 :: code_unit)) = length (replicate m (0x78 :: code_unit))"
    by (rule arg_cong)
  then show "n = m" by simp
qed

subsection \<open>The claims about the store\<close>

text \<open>
  C2. When no category of the document read has the given id, \<open>addProfileToCategory\<close>
  returns \<open>false\<close> and the storage is the one it was called on: nothing was written.
  When some category has it, let \<open>i\<close> be the first such position, \<open>kvs\<close> the properties
  of the category there and \<open>ps\<close> its profiles. The document \<open>doc'\<close> is the document read
  with, at position \<open>i\<close>, the same object whose \<open>profiles\<close> are \<open>ps\<close> followed by the new
  profile: it has the same length, and every other position and every other property
  are unchanged. If the storage accepts the text of \<open>doc'\<close>, the call returns \<open>true\<close> and
  the slot holds that text; if the storage refuses it, the Error of \<open>writeCategories\<close>
  reaches the caller.
\<close>

theorem addProfileToCategory_result:
  "((\<forall>c \<in> set (readCategories J ls). \<not> id_is cid c) \<longrightarrow>
      addProfileToCategory J ls cid p = Inr (False, ls)) \<and>
   ((\<exists>c \<in> set (readCategories J ls). id_is cid c) \<longrightarrow>
      (\<exists>i kvs ps doc'.
         i < length (readCategories J ls) \<and> id_is cid (readCategories J ls ! i) \<and>
         (\<forall>j < i. \<not> id_is cid (readCategories J ls ! j)) \<and>
         readCategories J ls ! i = JObj kvs \<and>
         map_of kvs (str ''profiles'') = Some (JArr ps) \<and>
         doc' = (readCategories J ls)
           [i := JObj (AList.update (str ''profiles'') (JArr (ps @ [p])) kvs)] \<and>
         length doc' = length (readCategories J ls) \<and>
         (\<forall>j. j < length (readCategories J ls) \<and> j \<noteq> i \<longrightarrow>
            doc' ! j = readCategories J ls ! j) \<and>
         (\<forall>k. get_prop (doc' ! i) k =
            (if k = str ''profiles'' then Some (JArr (ps @ [p]))
             else get_prop (readCategories J ls ! i) k)) \<and>
         (accepts ls STORAGE_KEY (stringify J (JArr doc')) \<longrightarrow>
            addProfileToCategory J ls cid p =
              Inr (True, ls\<lparr>items := (items ls)(STORAGE_KEY \<mapsto> stringify J (JArr doc'))\<rparr>)) \<and>
         (\<not> accepts ls STORAGE_KEY (stringify J (JArr doc')) \<longrightarrow>
            addProfileToCategory J ls cid p =
              Inl (Error ''Failed to save categories to localStorage''))))"
proof (intro conjI impI)
  assume "\<forall>c \<in> set (readCategories J ls). \<not> id_is cid c"
  then have "findIndex (id_is cid) (readCategories J ls) = None"
    by (simp add: findIndex_None)
  then show "addProfileToCategory J ls cid p = Inr (False, ls)"
    by (rule addProfileToCategory_None)
next
  let ?cats = "readCategories J ls"
  assume "\<exists>c \<in> set ?cats. id_is cid c"
  from addProfileToCategory_first [OF this, of p] obtain i kvs ps where
    f: "i < length ?cats" "id_is cid (?cats ! i)" "\<forall>j < i. \<not> id_is cid (?cats ! j)"
    and kvs: "?cats ! i = JObj kvs" "map_of kvs (str ''profiles'') = Some (JArr ps)"
    and r: "addProfileToCategory J ls cid p =
        (if accepts ls STORAGE_KEY (stringify J (JArr (?cats
              [i := JObj (AList.update (str ''profiles'') (JArr (ps @ [p])) kvs)])))
         then Inr (True, ls\<lparr>items := (items ls)(STORAGE_KEY \<mapsto>
                stringify J (JArr (?cats
                  [i := JObj (AList.update (str ''profiles'') (JArr (ps @ [p])) kvs)])))\<rparr>)
         else Inl (Error ''Failed to save categories to localStorage''))"
    by blast
  let ?doc = "?cats[i := JObj (AList.update (str ''profiles'') (JArr (ps @ [p])) kvs)]"
  have len: "length ?doc = length ?cats" by simp
  have others: "\<forall>j. j < length ?cats \<and> j \<noteq> i \<longrightarrow> ?doc ! j = ?cats ! j" by simp
  have props: "\<forall>k. get_prop (?doc ! i) k =
      (if k = str ''profiles'' then Some (JArr (ps @ [p])) else get_prop (?cats ! i) k)"
    using f(1) by (simp add: kvs(1) update_conv')
  have yes: "accepts ls STORAGE_KEY (stringify J (JArr ?doc)) \<longrightarrow>
      addProfileToCategory J ls cid p =
        Inr (True, ls\<lparr>items := (items ls)(STORAGE_KEY \<mapsto> stringify J (JArr ?doc))\<rparr>)"
    using r by simp
  have no: "\<not> accepts ls STORAGE_KEY (stringify J (JArr ?doc)) \<longrightarrow>
      addProfileToCategory J ls cid p =
        Inl (Error ''Failed to save categories to localStorage'')"
    using r by simp
  from f kvs len others props yes no
  show "\<exists>i kvs ps doc'.
         i < length ?cats \<and> id_is cid (?cats ! i) \<and>
         (\<forall>j < i. \<not> id_is cid (?cats ! j)) \<and>
         ?cats ! i = JObj kvs \<and>
         map_of kvs (str ''profiles'') = Some (JArr ps) \<and>
         doc' = ?cats[i := JObj (AList.update (str ''profiles'') (JArr (ps @ [p])) kvs)] \<and>
         length doc' = length ?cats \<and>
         (\<forall>j. j < length ?cats \<and> j \<noteq> i \<longrightarrow> doc' ! j = ?cats ! j) \<and>
         (\<forall>k. get_prop (doc' ! i) k =
            (if k = str ''profiles'' then Some (JArr (ps @ [p]))
             else get_prop (?cats ! i) k)) \<and>
         (accepts ls STORAGE_KEY (stringify J (JArr doc')) \<longrightarrow>
            addProfileToCategory J ls cid p =
              Inr (True, ls\<lparr>items := (items ls)(STORAGE_KEY \<mapsto> stringify J (JArr doc'))\<rparr>)) \<and>
         (\<not> accepts ls STORAGE_KEY (stringify J (JArr doc')) \<longrightarrow>
            addProfileToCategory J ls cid p =
              Inl (Error ''Failed to save categories to localStorage''))"
    by (intro exI [of _ i] exI [of _ kvs] exI [of _ ps] exI [of _ ?doc] conjI refl)
qed


theorem addProfileToCategory_result_witness:
  "readCategories example_JSON (example_storage text_mixed) = [friends [ann, bob], twin] \<and>
   \<not> id_is (str ''c2'') (friends [ann, bob]) \<and> \<not> id_is (str ''c2'') twin \<and>
   addProfileToCategory example_JSON (example_storage text_mixed) (str ''c2'') cy =
     Inr (False, example_storage text_mixed) \<and>
   id_is (str ''c1'') (friends [ann, bob]) \<and>
   stringify example_JSON (JArr [friends [ann, bob, cy], twin]) = text_added \<and>
   accepts (example_storage text_mixed) STORAGE_KEY text_added \<and>
   addProfileToCategory example_JSON (example_storage text_mixed) (str ''c1'') cy =
     Inr (True, (example_storage text_mixed)\<lparr>items :=
       (items (example_storage text_mixed))(STORAGE_KEY \<mapsto> text_added)\<rparr>) \<and>
   \<not> accepts (full_storage text_mixed) STORAGE_KEY text_added \<and>
   addProfileToCategory example_JSON (full_storage text_mixed) (str ''c1'') cy =
     Inl (Error ''Failed to save categories to localStorage'')"
proof -
  let ?ls = "example_storage text_mixed"
  let ?full = "full_storage text_mixed"
  let ?added = "[friends [ann, bob, cy], twin]"
  have absent: "\<forall>c \<in> set (readCategories example_JSON ?ls). \<not> id_is (str ''c2'') c"
    by (simp add: example_read example_ids)
  note no = addProfileToCategory_result
    [of example_JSON ?ls "str ''c2''" cy, THEN conjunct1, THEN mp, OF absent]
  have acc: "accepts ?ls STORAGE_KEY text_added"
    by (simp add: example_storage_def)
  have rej: "\<not> accepts ?full STORAGE_KEY text_added"
    by (simp add: full_storage_def)
  have doc: "[friends [ann, bob], twin]
      [i := JObj (AList.update (str ''profiles'') (JArr (ps @ [cy])) kvs)] = ?added"
    if "i < 2" "\<forall>j < i. \<not> id_is (str ''c1'') ([friends [ann, bob], twin] ! j)"
      "[friends [ann, bob], twin] ! i = JObj kvs"
      "map_of kvs (str ''profiles'') = Some (JArr ps)"
    for i kvs ps
  proof -
    have "i = 0"
    proof (rule ccontr)
      assume "i \<noteq> 0"
      then have "0 < i" by simp
      with that(2) have "\<not> id_is (str ''c1'') ([friends [ann, bob], twin] ! 0)" by blast
      then show False by (simp add: example_ids)
    qed
    with that(3) have kvs: "kvs = [(str ''id'', JStr (str ''c1'')),
        (str ''name'', JStr (str ''Friends'')), (str ''profiles'', JArr [ann, bob])]"
      by (simp add: friends_def)
    with that(4) have "ps = [ann, bob]"
      by (simp add: str_def)
    with kvs \<open>i = 0\<close> show ?thesis
      by (simp add: friends_def str_def)
  qed
  have pres: "\<exists>c \<in> set (readCategories example_JSON ?ls). id_is (str ''c1'') c"
    by (simp add: example_read example_ids)
  from addProfileToCategory_result
    [of example_JSON ?ls "str ''c1''" cy, THEN conjunct2, THEN mp, OF pres]
  obtain i kvs ps doc' where
    "i < length (readCategories example_JSON ?ls)"
    "\<forall>j < i. \<not> id_is (str ''c1'') (readCategories example_JSON ?ls ! j)"
    "readCategories example_JSON ?ls ! i = JObj kvs"
    "map_of kvs (str ''profiles'') = Some (JArr ps)"
    "doc' = (readCategories example_JSON ?ls)
       [i := JObj (AList.update (str ''profiles'') (JArr (ps @ [cy])) kvs)]"
    "accepts ?ls STORAGE_KEY (stringify example_JSON (JArr doc')) \<longrightarrow>
       addProfileToCategory example_JSON ?ls (str ''c1'') cy =
         Inr (True, ?ls\<lparr>items := (items ?ls)
           (STORAGE_KEY \<mapsto> stringify example_JSON (JArr doc'))\<rparr>)"
    by blast
  then have yes: "addProfileToCategory example_JSON ?ls (str ''c1'') cy =
      Inr (True, ?ls\<lparr>items := (items ?ls)(STORAGE_KEY \<mapsto> text_added)\<rparr>)"
    using doc [of i kvs ps] acc by (simp add: example_read example_stringify)
  have pres': "\<exists>c \<in> set (readCategories example_JSON ?full). id_is (str ''c1'') c"
    by (simp add: example_read_full example_ids)
  from addProfileToCategory_result
    [of example_JSON ?full "str ''c1''" cy, THEN conjunct2, THEN mp, OF pres']
  obtain i kvs ps doc' where
    "i < length (readCategories example_JSON ?full)"
    "\<forall>j < i. \<not> id_is (str ''c1'') (readCategories example_JSON ?full ! j)"
    "readCategories example_JSON ?full ! i = JObj kvs"
    "map_of kvs (str ''profiles'') = Some (JArr ps)"
    "doc' = (readCategories example_JSON ?full)
       [i := JObj (AList.update (str ''profiles'') (JArr (ps @ [cy])) kvs)]"
    "\<not> accepts ?full STORAGE_KEY (stringify example_JSON (JArr doc')) \<longrightarrow>
       addProfileToCategory example_JSON ?full (str ''c1'') cy =
         Inl (Error ''Failed to save categories to localStorage'')"
    by blast
  then have refused: "addProfileToCategory example_JSON ?full (str ''c1'') cy =
      Inl (Error ''Failed to save categories to localStorage'')"
    using doc [of i kvs ps] rej by (simp add: example_read_full example_stringify)
  from example_read example_ids(3) example_ids(4) no example_ids(1) [of "[ann, bob]"]
    example_stringify(2) acc yes rej refused
  show ?thesis
    by (intro conjI)
qed

text \<open>
  C3, as the claim states it, fails: content that is an array but not an array of
  category-shaped records does not give the empty sequence. The slot below holds two
  categories and the number 5; \<open>readCategories\<close> returns the two categories, and the copy
  in app.js returns all three entries.
\<close>

theorem readCategories_keeps_categories:
  "parse example_JSON text_mixed = Some (JArr [friends [ann, bob], twin, JNum (Finite 5)]) \<and>
   \<not> is_Category (JNum (Finite 5)) \<and>
   readCategories example_JSON (example_storage text_mixed) = [friends [ann, bob], twin] \<and>
   readCategories example_JSON (example_storage text_mixed) \<noteq> [] \<and>
   readCategories_app example_JSON (example_storage text_mixed) =
     [friends [ann, bob], twin, JNum (Finite 5)]"
  by (simp add: readCategories_def readCategories_try_def readCategories_app_def getItem_def
      example_storage_def example_JSON_def is_Category_def friends_def twin_def
      text_mixed_def text_read_def text_added_def text_removed_def str_def)

text \<open>
  C3, amended. \<open>readCategories\<close> never throws: whatever the body of its \<open>try\<close> raises, the
  result is the empty sequence. The result is empty when the storage cannot be used,
  when the slot is absent or holds the empty string, when its text does not parse, and
  when it parses to something that is not an array. When it parses to an array, the
  result is the entries of the array that are category-shaped, in their order (in
  app.js: all entries). An entry is category-shaped exactly when it is an object with a
  string \<open>id\<close>, a string \<open>name\<close> and an array \<open>profiles\<close>.
\<close>

theorem readCategories_result:
  "(\<forall>e. readCategories_try J ls = Inl e \<longrightarrow> readCategories J ls = []) \<and>
   (\<not> accessible ls \<or> items ls STORAGE_KEY = None \<or> items ls STORAGE_KEY = Some [] \<longrightarrow>
      readCategories J ls = [] \<and> readCategories_app J ls = []) \<and>
   (\<forall>raw. accessible ls \<and> items ls STORAGE_KEY = Some raw \<and> parse J raw = None \<longrightarrow>
      readCategories J ls = [] \<and> readCategories_app J ls = []) \<and>
   (\<forall>raw v. accessible ls \<and> items ls STORAGE_KEY = Some raw \<and> parse J raw = Some v \<and>
        \<not> isArray (Some v) \<longrightarrow>
      readCategories J ls = [] \<and> readCategories_app J ls = []) \<and>
   (\<forall>raw xs. accessible ls \<and> items ls STORAGE_KEY = Some raw \<and> raw \<noteq> [] \<and>
        parse J raw = Some (JArr xs) \<longrightarrow>
      readCategories J ls = filter is_Category xs \<and> readCategories_app J ls = xs) \<and>
   (\<forall>item. is_Category item \<longleftrightarrow>
      (\<exists>kvs i n ps. item = JObj kvs \<and>
         map_of kvs (str ''id'') = Some (JStr i) \<and>
         map_of kvs (str ''name'') = Some (JStr n) \<and>
         map_of kvs (str ''profiles'') = Some (JArr ps)))"
proof (intro conjI allI impI)
  fix e
  assume "readCategories_try J ls = Inl e"
  then show "readCategories J ls = []"
    by (simp add: readCategories_def)
next
  assume "\<not> accessible ls \<or> items ls STORAGE_KEY = None \<or> items ls STORAGE_KEY = Some []"
  then show "readCategories J ls = []" and "readCategories_app J ls = []"
    by (auto simp: readCategories_def readCategories_try_def readCategories_app_def getItem_def)
next
  fix raw
  assume "accessible ls \<and> items ls STORAGE_KEY = Some raw \<and> parse J raw = None"
  then show "readCategories J ls = []" and "readCategories_app J ls = []"
    by (simp_all add: readCategories_def readCategories_try_def readCategories_app_def
        getItem_def)
next
  fix raw v
  assume a: "accessible ls \<and> items ls STORAGE_KEY = Some raw \<and> parse J raw = Some v \<and>
    \<not> isArray (Some v)"
  then have "\<forall>xs. v \<noteq> JArr xs" by auto
  with a show "readCategories J ls = []" and "readCategories_app J ls = []"
    by (simp_all add: readCategories_def readCategories_try_def readCategories_app_def
        getItem_def split: json.splits)
next
  fix raw xs
  assume "accessible ls \<and> items ls STORAGE_KEY = Some raw \<and> raw \<noteq> [] \<and>
    parse J raw = Some (JArr xs)"
  then show "readCategories J ls = filter is_Category xs" and "readCategories_app J ls = xs"
    by (simp_all add: readCategories_def readCategories_try_def readCategories_app_def
        getItem_def)
next
  fix item
  show "is_Category item \<longleftrightarrow>
      (\<exists>kvs i n ps. item = JObj kvs \<and>
         map_of kvs (str ''id'') = Some (JStr i) \<and>
         map_of kvs (str ''name'') = Some (JStr n) \<and>
         map_of kvs (str ''profiles'') = Some (JArr ps))"
    by (rule is_Category_iff)
qed

theorem readCategories_result_witness:
  "accessible (example_storage text_mixed) \<and>
   items (example_storage text_mixed) STORAGE_KEY = Some text_mixed \<and> text_mixed \<noteq> [] \<and>
   parse example_JSON text_mixed = Some (JArr [friends [ann, bob], twin, JNum (Finite 5)]) \<and>
   readCategories example_JSON (example_storage text_mixed) =
     filter is_Category [friends [ann, bob], twin, JNum (Finite 5)] \<and>
   parse example_JSON (str ''{\"id\":\"c1\"}'') = Some (JObj [(str ''id'', JStr (str ''c1''))]) \<and>
   \<not> isArray (Some (JObj [(str ''id'', JStr (str ''c1''))])) \<and>
   readCategories example_JSON (example_storage (str ''{\"id\":\"c1\"}'')) = [] \<and>
   parse example_JSON (str ''[{'') = None \<and>
   readCategories example_JSON (example_storage (str ''[{'')) = [] \<and>
   items ((example_storage [])\<lparr>items := Map.empty\<rparr>) STORAGE_KEY = None \<and>
   readCategories example_JSON ((example_storage [])\<lparr>items := Map.empty\<rparr>) = [] \<and>
   is_Category twin"
proof -
  have mixed: "accessible (example_storage text_mixed) \<and>
      items (example_storage text_mixed) STORAGE_KEY = Some text_mixed \<and> text_mixed \<noteq> [] \<and>
      parse example_JSON text_mixed = Some (JArr [friends [ann, bob], twin, JNum (Finite 5)])"
    by (simp add: example_storage_def example_JSON_def text_mixed_def str_def)
  note array = readCategories_result [of example_JSON "example_storage text_mixed",
    THEN conjunct2, THEN conjunct2, THEN conjunct2, THEN conjunct2, THEN conjunct1,
    THEN spec, THEN spec, THEN mp, OF mixed, THEN conjunct1]
  let ?obj = "str ''{\"id\":\"c1\"}''"
  have obj: "accessible (example_storage ?obj) \<and>
      items (example_storage ?obj) STORAGE_KEY = Some ?obj \<and>
      parse example_JSON ?obj = Some (JObj [(str ''id'', JStr (str ''c1''))]) \<and>
      \<not> isArray (Some (JObj [(str ''id'', JStr (str ''c1''))]))"
    by (simp add: example_storage_def example_JSON_def text_mixed_def text_read_def
        text_added_def text_removed_def str_def)
  note not_array = readCategories_result [of example_JSON "example_storage ?obj",
    THEN conjunct2, THEN conjunct2, THEN conjunct2, THEN conjunct1,
    THEN spec, THEN spec, THEN mp, OF obj, THEN conjunct1]
  let ?bad = "str ''[{''"
  have bad: "accessible (example_storage ?bad) \<and>
      items (example_storage ?bad) STORAGE_KEY = Some ?bad \<and> parse example_JSON ?bad = None"
    by (simp add: example_storage_def example_JSON_def text_mixed_def text_read_def
        text_added_def text_removed_def str_def)
  note unparsable = readCategories_result [of example_JSON "example_storage ?bad",
    THEN conjunct2, THEN conjunct2, THEN conjunct1, THEN spec, THEN mp, OF bad, THEN conjunct1]
  let ?none = "(example_storage [])\<lparr>items := Map.empty\<rparr>"
  have none: "items ?none STORAGE_KEY = None"
    by simp
  then have none': "\<not> accessible ?none \<or> items ?none STORAGE_KEY = None \<or>
      items ?none STORAGE_KEY = Some []"
    by (intro disjI2 disjI1)
  note absent = readCategories_result [of example_JSON ?none,
    THEN conjunct2, THEN conjunct1, THEN mp, OF none', THEN conjunct1]
  have twin: "\<exists>kvs i n ps. twin = JObj kvs \<and>
         map_of kvs (str ''id'') = Some (JStr i) \<and>
         map_of kvs (str ''name'') = Some (JStr n) \<and>
         map_of kvs (str ''profiles'') = Some (JArr ps)"
    by (simp add: twin_def str_def)
  note shaped = readCategories_result [of example_JSON ?none,
    THEN conjunct2, THEN conjunct2, THEN conjunct2, THEN conjunct2, THEN conjunct2,
    THEN spec, THEN iffD2, OF twin]
  from mixed array obj not_array bad unparsable none absent shaped show ?thesis
    by (intro conjI) (erule conjunct1 conjunct2 | assumption | (drule conjunct2, erule conjunct1 conjunct2) | (drule conjunct2, drule conjunct2, erule conjunct1 conjunct2))+
qed

text \<open>
  C4, as the claim states it, fails. The slot below holds a category whose \<open>profiles\<close>
  array holds the numeral \<open>1e309\<close>. The first read returns the category with an infinity
  in that array; writing this document back stores \<open>null\<close> in its place, and the second
  read returns \<open>null\<close> there, which is not the sequence of the first read.
\<close>

theorem read_write_read_overflow:
  "readCategories overflow_JSON (example_storage text_overflow) = [friends [JNum Infinity]] \<and>
   writeCategories overflow_JSON
       (JArr (readCategories overflow_JSON (example_storage text_overflow)))
       (example_storage text_overflow) =
     Inr ((example_storage text_overflow)\<lparr>items :=
       (items (example_storage text_overflow))(STORAGE_KEY \<mapsto> text_null)\<rparr>) \<and>
   readCategories overflow_JSON ((example_storage text_overflow)\<lparr>items :=
       (items (example_storage text_overflow))(STORAGE_KEY \<mapsto> text_null)\<rparr>) =
     [friends [JNull]] \<and>
   readCategories overflow_JSON ((example_storage text_overflow)\<lparr>items :=
       (items (example_storage text_overflow))(STORAGE_KEY \<mapsto> text_null)\<rparr>) \<noteq>
     readCategories overflow_JSON (example_storage text_overflow)"
proof -
  let ?ls = "example_storage text_overflow"
  let ?ls' = "?ls\<lparr>items := (items ?ls)(STORAGE_KEY \<mapsto> text_null)\<rparr>"
  have first: "readCategories overflow_JSON ?ls = [friends [JNum Infinity]]"
    by (simp add: readCategories_def readCategories_try_def getItem_def
        example_storage_def overflow_JSON_def is_Category_def friends_def
        text_overflow_def text_null_def str_def)
  have "stringify overflow_JSON (JArr [friends [JNum Infinity]]) = text_null"
    by (simp add: overflow_JSON_def)
  moreover have "accessible ?ls \<and> accepts ?ls STORAGE_KEY text_null"
    by (simp add: example_storage_def)
  ultimately have w: "writeCategories overflow_JSON (JArr (readCategories overflow_JSON ?ls)) ?ls
      = Inr ?ls'"
    by (simp add: first writeCategories_array)
  have second: "readCategories overflow_JSON ?ls' = [friends [JNull]]"
    by (simp add: readCategories_def readCategories_try_def getItem_def
        example_storage_def overflow_JSON_def is_Category_def friends_def
        text_overflow_def text_null_def str_def)
  have "friends [JNull] \<noteq> friends [JNum Infinity]"
    by (simp add: friends_def)
  with first second have differ:
    "readCategories overflow_JSON ?ls' \<noteq> readCategories overflow_JSON ?ls"
    by simp
  from first w second differ show ?thesis
    by (intro conjI)
qed


text \<open>
  C4, amended. After the document that was read has been written back, a second read
  returns the category-shaped entries of what \<open>JSON.parse\<close> makes of the text that
  \<open>JSON.stringify\<close> wrote for that document. So for every state of the storage in which
  the write goes through and JSON reads the document back as it was written (its text
  is not empty and parses to the same value), the second read gives the same sequence
  as the first.
\<close>

theorem read_write_read:
  assumes "writeCategories J (JArr (readCategories J ls)) ls = Inr ls'"
  shows "readCategories J ls' =
      (if stringify J (JArr (readCategories J ls)) = [] then []
       else case parse J (stringify J (JArr (readCategories J ls))) of
         Some (JArr xs) \<Rightarrow> filter is_Category xs
       | _ \<Rightarrow> []) \<and>
    (reads_back J (JArr (readCategories J ls)) \<longrightarrow>
       readCategories J ls' = readCategories J ls)"
proof -
  let ?doc = "readCategories J ls"
  let ?raw = "stringify J (JArr ?doc)"
  from assms have a: "accessible ls"
    and ls': "ls' = ls\<lparr>items := (items ls)(STORAGE_KEY \<mapsto> ?raw)\<rparr>"
    by (simp_all add: writeCategories_array split: if_splits)
  from ls' a have "accessible ls'" and "items ls' STORAGE_KEY = Some ?raw"
    by simp_all
  then have second: "readCategories J ls' =
     (if ?raw = [] then []
      else case parse J ?raw of Some (JArr xs) \<Rightarrow> filter is_Category xs | _ \<Rightarrow> [])"
    by (rule readCategories_raw)
  have "readCategories J ls' = ?doc" if "reads_back J (JArr ?doc)"
  proof -
    from that second have "readCategories J ls' = filter is_Category ?doc"
      by (simp add: reads_back_def)
    also have "\<dots> = ?doc"
      by (simp add: readCategories_is_Category)
    finally show ?thesis .
  qed
  with second show ?thesis by blast
qed


theorem read_write_read_witness:
  "writeCategories example_JSON
       (JArr (readCategories example_JSON (example_storage text_mixed)))
       (example_storage text_mixed) =
     Inr ((example_storage text_mixed)\<lparr>items :=
       (items (example_storage text_mixed))(STORAGE_KEY \<mapsto> text_read)\<rparr>) \<and>
   reads_back example_JSON (JArr (readCategories example_JSON (example_storage text_mixed))) \<and>
   readCategories example_JSON ((example_storage text_mixed)\<lparr>items :=
       (items (example_storage text_mixed))(STORAGE_KEY \<mapsto> text_read)\<rparr>) =
     readCategories example_JSON (example_storage text_mixed)"
proof -
  let ?ls = "example_storage text_mixed"
  let ?ls' = "?ls\<lparr>items := (items ?ls)(STORAGE_KEY \<mapsto> text_read)\<rparr>"
  have "accessible ?ls \<and> accepts ?ls STORAGE_KEY text_read"
    by (simp add: example_storage_def)
  then have w: "writeCategories example_JSON (JArr (readCategories example_JSON ?ls)) ?ls =
      Inr ?ls'"
    by (simp add: example_read writeCategories_array example_stringify)
  have "text_read \<noteq> [] \<and> parse example_JSON text_read = Some (JArr [friends [ann, bob], twin])"
    by (simp add: example_JSON_def text_mixed_def text_read_def str_def)
  then have rb: "reads_back example_JSON (JArr (readCategories example_JSON ?ls))"
    by (simp add: reads_back_def example_read example_stringify)
  note same = read_write_read [OF w, THEN conjunct2, THEN mp, OF rb]
  from w rb same show ?thesis
    by (intro conjI)
qed

text \<open>
  C5. \<open>writeCategories\<close> throws its TypeError (the ValidationError of the spec) when the
  argument is not an array, and its Error (the PersistenceError) when \<open>setItem\<close> throws;
  it returns normally only when the argument is an array and \<open>setItem\<close> has stored its
  text. The repository operations do not catch the Error: with a storage that refuses
  every write, \<open>addProfileToCategory\<close> on an existing category and
  \<open>removeProfileFromCategory\<close> on an existing profile end in that Error.
\<close>

theorem writeCategories_errors:
  "(\<not> isArray (Some v) \<longrightarrow>
      writeCategories J v ls = Inl (TypeError ''Categories must be an array'')) \<and>
   (\<forall>xs e. setItem ls STORAGE_KEY (stringify J (JArr xs)) = Inl e \<longrightarrow>
      writeCategories J (JArr xs) ls =
        Inl (Error ''Failed to save categories to localStorage'')) \<and>
   (\<forall>ls'. writeCategories J v ls = Inr ls' \<longrightarrow>
      isArray (Some v) \<and> setItem ls STORAGE_KEY (stringify J v) = Inr ls') \<and>
   ((\<exists>c \<in> set (readCategories J ls). id_is cid c) \<and> (\<forall>t. \<not> accepts ls STORAGE_KEY t) \<longrightarrow>
      addProfileToCategory J ls cid p =
        Inl (Error ''Failed to save categories to localStorage'')) \<and>
   (\<forall>i ps k. findIndex (id_is cid) (readCategories J ls) = Some i \<and>
        get_prop (readCategories J ls ! i) (str ''profiles'') = Some (JArr ps) \<and>
        findIndex_throwing (profile_id_is pid) ps = Inr (Some k) \<and>
        (\<forall>t. \<not> accepts ls STORAGE_KEY t) \<longrightarrow>
      removeProfileFromCategory J ls cid pid =
        Inl (Error ''Failed to save categories to localStorage''))"
proof (intro conjI allI impI)
  assume "\<not> isArray (Some v)"
  then show "writeCategories J v ls = Inl (TypeError ''Categories must be an array'')"
    by (simp add: writeCategories_def)
next
  fix xs e
  assume "setItem ls STORAGE_KEY (stringify J (JArr xs)) = Inl e"
  then show "writeCategories J (JArr xs) ls =
      Inl (Error ''Failed to save categories to localStorage'')"
    by (simp add: writeCategories_def)
next
  fix ls'
  assume "writeCategories J v ls = Inr ls'"
  then show "isArray (Some v)" and "setItem ls STORAGE_KEY (stringify J v) = Inr ls'"
    by (auto simp: writeCategories_def split: if_splits sum.splits)
next
  assume a: "(\<exists>c \<in> set (readCategories J ls). id_is cid c) \<and>
    (\<forall>t. \<not> accepts ls STORAGE_KEY t)"
  then have "findIndex (id_is cid) (readCategories J ls) \<noteq> None"
    by (simp add: findIndex_None)
  then obtain i where "findIndex (id_is cid) (readCategories J ls) = Some i" by blast
  from addProfileToCategory_Some [OF this, of p] a
  show "addProfileToCategory J ls cid p =
      Inl (Error ''Failed to save categories to localStorage'')"
    by auto
next
  fix i ps k
  assume a: "findIndex (id_is cid) (readCategories J ls) = Some i \<and>
        get_prop (readCategories J ls ! i) (str ''profiles'') = Some (JArr ps) \<and>
        findIndex_throwing (profile_id_is pid) ps = Inr (Some k) \<and>
        (\<forall>t. \<not> accepts ls STORAGE_KEY t)"
  then have i: "findIndex (id_is cid) (readCategories J ls) = Some i" by simp
  from removeProfileFromCategory_Some [OF i, of pid] a
  show "removeProfileFromCategory J ls cid pid =
      Inl (Error ''Failed to save categories to localStorage'')"
    by auto
qed

theorem writeCategories_errors_witness:
  "\<not> isArray (Some JNull) \<and>
   writeCategories example_JSON JNull (example_storage text_mixed) =
     Inl (TypeError ''Categories must be an array'') \<and>
   setItem (full_storage text_mixed) STORAGE_KEY (stringify example_JSON (JArr [])) =
     Inl QuotaExceededError \<and>
   writeCategories example_JSON (JArr []) (full_storage text_mixed) =
     Inl (Error ''Failed to save categories to localStorage'') \<and>
   writeCategories example_JSON (JArr [friends [ann, bob], twin]) (example_storage text_mixed) =
     Inr ((example_storage text_mixed)\<lparr>items :=
       (items (example_storage text_mixed))(STORAGE_KEY \<mapsto> text_read)\<rparr>) \<and>
   setItem (example_storage text_mixed) STORAGE_KEY
       (stringify example_JSON (JArr [friends [ann, bob], twin])) =
     Inr ((example_storage text_mixed)\<lparr>items :=
       (items (example_storage text_mixed))(STORAGE_KEY \<mapsto> text_read)\<rparr>) \<and>
   (\<exists>c \<in> set (readCategories example_JSON (full_storage text_mixed)). id_is (str ''c1'') c) \<and>
   (\<forall>t. \<not> accepts (full_storage text_mixed) STORAGE_KEY t) \<and>
   addProfileToCategory example_JSON (full_storage text_mixed) (str ''c1'') cy =
     Inl (Error ''Failed to save categories to localStorage'') \<and>
   findIndex_throwing (profile_id_is (str ''p1'')) [ann, bob] = Inr (Some 0) \<and>
   removeProfileFromCategory example_JSON (full_storage text_mixed) (str ''c1'') (str ''p1'') =
     Inl (Error ''Failed to save categories to localStorage'')"
proof -
  let ?ls = "example_storage text_mixed"
  let ?ls' = "?ls\<lparr>items := (items ?ls)(STORAGE_KEY \<mapsto> text_read)\<rparr>"
  let ?full = "full_storage text_mixed"
  have n: "\<not> isArray (Some JNull)" by simp
  note type_error = writeCategories_errors
    [of JNull example_JSON ?ls, THEN conjunct1, THEN mp, OF n]
  have q: "setItem ?full STORAGE_KEY (stringify example_JSON (JArr [])) = Inl QuotaExceededError"
    by (simp add: setItem_def full_storage_def)
  note save_error = writeCategories_errors
    [of _ example_JSON ?full, THEN conjunct2, THEN conjunct1, THEN spec, THEN spec, THEN mp, OF q]
  have "accessible ?ls \<and> accepts ?ls STORAGE_KEY text_read"
    by (simp add: example_storage_def)
  then have w: "writeCategories example_JSON (JArr [friends [ann, bob], twin]) ?ls = Inr ?ls'"
    by (simp add: writeCategories_array example_stringify)
  note written = writeCategories_errors
    [of "JArr [friends [ann, bob], twin]" example_JSON ?ls, THEN conjunct2, THEN conjunct2,
     THEN conjunct1, THEN spec, THEN mp, OF w, THEN conjunct2]
  have pres: "\<exists>c \<in> set (readCategories example_JSON ?full). id_is (str ''c1'') c"
    by (simp add: example_read_full example_ids)
  have rej: "\<forall>t. \<not> accepts ?full STORAGE_KEY t"
    by (simp add: full_storage_def)
  note add_error = writeCategories_errors
    [of _ example_JSON ?full "str ''c1''" cy, THEN conjunct2, THEN conjunct2, THEN conjunct2,
     THEN conjunct1, THEN mp, OF conjI, OF pres rej]
  have i: "findIndex (id_is (str ''c1'')) (readCategories example_JSON ?full) = Some 0"
    by (simp add: example_read_full example_ids)
  have ps: "get_prop (readCategories example_JSON ?full ! 0) (str ''profiles'') =
      Some (JArr [ann, bob])"
    by (simp add: example_read_full example_profiles)
  note k = example_find_p1
  note remove_error = writeCategories_errors
    [of _ example_JSON ?full "str ''c1''" _ "str ''p1''", THEN conjunct2, THEN conjunct2,
     THEN conjunct2, THEN conjunct2, THEN spec, THEN spec, THEN spec, THEN mp,
     OF conjI, OF i conjI, OF ps conjI, OF k rej]
  from written have written': "setItem ?ls STORAGE_KEY
       (stringify example_JSON (JArr [friends [ann, bob], twin])) = Inr ?ls'" .
  from n type_error q save_error w written' pres rej add_error k remove_error
  show ?thesis
    by (intro conjI)
qed

text \<open>
  C6. \<open>createCategory\<close> throws its TypeError when the name is empty or only whitespace.
  Otherwise, given an array of the store, it returns a category with the trimmed name
  and the next identifier of the supply (one that none of the earlier calls got, if the
  supply never repeats), whose \<open>profiles\<close> is an array that did not exist before, so not
  the one passed in, with the same elements. Every array that existed is unchanged and
  so is the storage. Without the second argument the new array is empty.
\<close>

theorem createCategory_result:
  "(trim nm = [] \<longrightarrow>
      createCategory w nm arg = Inl (TypeError ''Name must be a non-empty string'')) \<and>
   (\<forall>a. trim nm \<noteq> [] \<and> arg = Some a \<and> a < length (arrays w) \<longrightarrow>
      (\<exists>c w'. createCategory w nm arg = Inr (c, w') \<and>
         name c = trim nm \<and>
         id' c = uuids w (uuid_calls w) \<and> uuid_calls w' = Suc (uuid_calls w) \<and>
         (inj (uuids w) \<longrightarrow> (\<forall>n < uuid_calls w. id' c \<noteq> uuids w n)) \<and>
         profiles c \<noteq> a \<and> length (arrays w) \<le> profiles c \<and> profiles c < length (arrays w') \<and>
         arrays w' ! profiles c = arrays w ! a \<and>
         (\<forall>b < length (arrays w). arrays w' ! b = arrays w ! b) \<and>
         storage w' = storage w)) \<and>
   (trim nm \<noteq> [] \<and> arg = None \<longrightarrow>
      (\<exists>c w'. createCategory w nm arg = Inr (c, w') \<and>
         name c = trim nm \<and>
         id' c = uuids w (uuid_calls w) \<and> uuid_calls w' = Suc (uuid_calls w) \<and>
         length (arrays w) \<le> profiles c \<and> profiles c < length (arrays w') \<and>
         arrays w' ! profiles c = [] \<and>
         (\<forall>b < length (arrays w). arrays w' ! b = arrays w ! b) \<and>
         storage w' = storage w))"
proof (intro conjI allI impI)
  assume "trim nm = []"
  then show "createCategory w nm arg = Inl (TypeError ''Name must be a non-empty string'')"
    by (simp add: createCategory_def split: prod.splits)
next
  fix a
  assume a: "trim nm \<noteq> [] \<and> arg = Some a \<and> a < length (arrays w)"
  let ?c = "\<lparr>id' = uuids w (uuid_calls w), name = trim nm, profiles = length (arrays w)\<rparr>"
  let ?w = "w\<lparr>uuid_calls := Suc (uuid_calls w), arrays := arrays w @ [arrays w ! a]\<rparr>"
  from a have r: "createCategory w nm arg = Inr (?c, ?w)"
    by (simp add: createCategory_def alloc_def randomUUID_def)
  have fresh: "inj (uuids w) \<longrightarrow> (\<forall>n < uuid_calls w. id' ?c \<noteq> uuids w n)"
    by (auto dest: injD)
  have old: "\<forall>b < length (arrays w). arrays ?w ! b = arrays w ! b"
    by (simp add: nth_append)
  from a r fresh old show "\<exists>c w'. createCategory w nm arg = Inr (c, w') \<and>
         name c = trim nm \<and>
         id' c = uuids w (uuid_calls w) \<and> uuid_calls w' = Suc (uuid_calls w) \<and>
         (inj (uuids w) \<longrightarrow> (\<forall>n < uuid_calls w. id' c \<noteq> uuids w n)) \<and>
         profiles c \<noteq> a \<and> length (arrays w) \<le> profiles c \<and> profiles c < length (arrays w') \<and>
         arrays w' ! profiles c = arrays w ! a \<and>
         (\<forall>b < length (arrays w). arrays w' ! b = arrays w ! b) \<and>
         storage w' = storage w"
    by (intro exI [of _ ?c] exI [of _ ?w]) simp
next
  assume a: "trim nm \<noteq> [] \<and> arg = None"
  let ?c = "\<lparr>id' = uuids w (uuid_calls w), name = trim nm, profiles = Suc (length (arrays w))\<rparr>"
  let ?w = "w\<lparr>arrays := arrays w @ [[]], uuid_calls := Suc (uuid_calls w),
    arrays := (arrays w @ [[]]) @ [[]]\<rparr>"
  from a have r: "createCategory w nm arg = Inr (?c, ?w)"
    by (simp add: createCategory_def alloc_def randomUUID_def)
  have old: "\<forall>b < length (arrays w). arrays ?w ! b = arrays w ! b"
    by (simp add: nth_append)
  from a r old show "\<exists>c w'. createCategory w nm arg = Inr (c, w') \<and>
         name c = trim nm \<and>
         id' c = uuids w (uuid_calls w) \<and> uuid_calls w' = Suc (uuid_calls w) \<and>
         length (arrays w) \<le> profiles c \<and> profiles c < length (arrays w') \<and>
         arrays w' ! profiles c = [] \<and>
         (\<forall>b < length (arrays w). arrays w' ! b = arrays w ! b) \<and>
         storage w' = storage w"
    by (intro exI [of _ ?c] exI [of _ ?w]) (simp add: nth_append)
qed

theorem createCategory_result_witness:
  "trim (str '' '') = [] \<and>
   createCategory example_world (str '' '') (Some 0) =
     Inl (TypeError ''Name must be a non-empty string'') \<and>
   trim (str '' Friends '') \<noteq> [] \<and> 0 < length (arrays example_world) \<and>
   inj (uuids example_world) \<and>
   createCategory example_world (str '' Friends '') (Some 0) =
     Inr (\<lparr>id' = str ''uuid-x'', name = str ''Friends'', profiles = 1\<rparr>,
          example_world\<lparr>uuid_calls := 2, arrays := [[1, 2], [1, 2]]\<rparr>) \<and>
   (\<exists>c w'. createCategory example_world (str '' Friends '') (Some 0) = Inr (c, w') \<and>
      name c = trim (str '' Friends '') \<and>
      id' c = uuids example_world (uuid_calls example_world) \<and>
      uuid_calls w' = Suc (uuid_calls example_world) \<and>
      (inj (uuids example_world) \<longrightarrow>
         (\<forall>n < uuid_calls example_world. id' c \<noteq> uuids example_world n)) \<and>
      profiles c \<noteq> 0 \<and> length (arrays example_world) \<le> profiles c \<and>
      profiles c < length (arrays w') \<and>
      arrays w' ! profiles c = arrays example_world ! 0 \<and>
      (\<forall>b < length (arrays example_world). arrays w' ! b = arrays example_world ! b) \<and>
      storage w' = storage example_world) \<and>
   (\<exists>c w'. createCategory example_world (str '' Friends '') None = Inr (c, w') \<and>
      name c = trim (str '' Friends '') \<and>
      id' c = uuids example_world (uuid_calls example_world) \<and>
      uuid_calls w' = Suc (uuid_calls example_world) \<and>
      length (arrays example_world) \<le> profiles c \<and> profiles c < length (arrays w') \<and>
      arrays w' ! profiles c = [] \<and>
      (\<forall>b < length (arrays example_world). arrays w' ! b = arrays example_world ! b) \<and>
      storage w' = storage example_world)"
proof -
  have blank: "trim (str '' '') = []"
    by (simp add: trim_def isWhiteSpace_def str_def)
  note refused = createCategory_result
    [of "str '' ''" example_world "Some 0", THEN conjunct1, THEN mp, OF blank]
  have t: "trim (str '' Friends '') = str ''Friends''"
    by (simp add: trim_def isWhiteSpace_def str_def)
  then have ne: "trim (str '' Friends '') \<noteq> []"
    by (simp add: str_def)
  have arr: "0 < length (arrays example_world)"
    by (simp add: example_world_def)
  have "trim (str '' Friends '') \<noteq> [] \<and> Some 0 = Some (0::nat) \<and>
      0 < length (arrays example_world)"
    using ne arr by simp
  note given = createCategory_result
    [of "str '' Friends ''" example_world "Some 0", THEN conjunct2, THEN conjunct1,
     THEN spec, THEN mp, OF this]
  have "trim (str '' Friends '') \<noteq> [] \<and> (None :: nat option) = None"
    using ne by simp
  note default = createCategory_result
    [of "str '' Friends ''" "example_world :: nat world" None, THEN conjunct2, THEN conjunct2,
     THEN mp, OF this]
  have run: "createCategory example_world (str '' Friends '') (Some 0) =
     Inr (\<lparr>id' = str ''uuid-x'', name = str ''Friends'', profiles = 1\<rparr>,
          example_world\<lparr>uuid_calls := 2, arrays := [[1, 2], [1, 2]]\<rparr>)"
    by (simp add: createCategory_def t alloc_def randomUUID_def)
      (simp add: example_world_def str_def)
  from blank refused ne arr example_supply run given default show ?thesis
    by (intro conjI)
qed



text \<open>
  C10. \<open>findCategoryById\<close> and \<open>getCurrentCategory\<close> return only the first category of
  the document with the given id, and do return it when the id is not blank (not empty,
  for \<open>getCurrentCategory\<close>). A successful \<open>addProfileToCategory\<close> or
  \<open>removeProfileFromCategory\<close> changes the document at the first position with the given
  id and nowhere else, so a later category with the same id is left as it is.
\<close>

theorem first_match:
  "(\<forall>c. findCategoryById J ls cid = Some c \<or> getCurrentCategory J ls (Some cid) = Some c \<longrightarrow>
      (\<exists>i. i < length (readCategories J ls) \<and> readCategories J ls ! i = c \<and> id_is cid c \<and>
         (\<forall>j < i. \<not> id_is cid (readCategories J ls ! j)))) \<and>
   ((\<exists>c \<in> set (readCategories J ls). id_is cid c) \<longrightarrow>
      (trim cid \<noteq> [] \<longrightarrow> findCategoryById J ls cid \<noteq> None) \<and>
      (cid \<noteq> [] \<longrightarrow> getCurrentCategory J ls (Some cid) \<noteq> None)) \<and>
   (\<forall>ls'. addProfileToCategory J ls cid p = Inr (True, ls') \<longrightarrow>
      (\<exists>i ps doc'.
         ls' = ls\<lparr>items := (items ls)(STORAGE_KEY \<mapsto> stringify J (JArr doc'))\<rparr> \<and>
         i < length (readCategories J ls) \<and> id_is cid (readCategories J ls ! i) \<and>
         (\<forall>j < i. \<not> id_is cid (readCategories J ls ! j)) \<and>
         length doc' = length (readCategories J ls) \<and>
         (\<forall>j. j < length (readCategories J ls) \<and> j \<noteq> i \<longrightarrow>
            doc' ! j = readCategories J ls ! j) \<and>
         get_prop (readCategories J ls ! i) (str ''profiles'') = Some (JArr ps) \<and>
         get_prop (doc' ! i) (str ''profiles'') = Some (JArr (ps @ [p])))) \<and>
   (\<forall>ls'. removeProfileFromCategory J ls cid pid = Inr (True, ls') \<longrightarrow>
      (\<exists>i ps k doc'.
         ls' = ls\<lparr>items := (items ls)(STORAGE_KEY \<mapsto> stringify J (JArr doc'))\<rparr> \<and>
         i < length (readCategories J ls) \<and> id_is cid (readCategories J ls ! i) \<and>
         (\<forall>j < i. \<not> id_is cid (readCategories J ls ! j)) \<and>
         length doc' = length (readCategories J ls) \<and>
         (\<forall>j. j < length (readCategories J ls) \<and> j \<noteq> i \<longrightarrow>
            doc' ! j = readCategories J ls ! j) \<and>
         get_prop (readCategories J ls ! i) (str ''profiles'') = Some (JArr ps) \<and>
         k < length ps \<and>
         get_prop (doc' ! i) (str ''profiles'') = Some (JArr (take k ps @ drop (Suc k) ps))))"
proof (intro conjI allI impI)
  fix c
  assume "findCategoryById J ls cid = Some c \<or> getCurrentCategory J ls (Some cid) = Some c"
  then have "find (id_is cid) (readCategories J ls) = Some c"
    by (auto simp: findCategoryById_def getCurrentCategory_def split: if_splits)
  then show "\<exists>i. i < length (readCategories J ls) \<and> readCategories J ls ! i = c \<and>
      id_is cid c \<and> (\<forall>j < i. \<not> id_is cid (readCategories J ls ! j))"
    by (rule find_first)
next
  assume "\<exists>c \<in> set (readCategories J ls). id_is cid c" and "trim cid \<noteq> []"
  then show "findCategoryById J ls cid \<noteq> None"
    by (simp add: findCategoryById_def find_exists)
next
  assume "\<exists>c \<in> set (readCategories J ls). id_is cid c" and "cid \<noteq> []"
  then show "getCurrentCategory J ls (Some cid) \<noteq> None"
    by (simp add: getCurrentCategory_def find_exists)
next
  fix ls'
  assume "addProfileToCategory J ls cid p = Inr (True, ls')"
  from add_frame [OF this]
  show "\<exists>i ps doc'.
         ls' = ls\<lparr>items := (items ls)(STORAGE_KEY \<mapsto> stringify J (JArr doc'))\<rparr> \<and>
         i < length (readCategories J ls) \<and> id_is cid (readCategories J ls ! i) \<and>
         (\<forall>j < i. \<not> id_is cid (readCategories J ls ! j)) \<and>
         length doc' = length (readCategories J ls) \<and>
         (\<forall>j. j < length (readCategories J ls) \<and> j \<noteq> i \<longrightarrow>
            doc' ! j = readCategories J ls ! j) \<and>
         get_prop (readCategories J ls ! i) (str ''profiles'') = Some (JArr ps) \<and>
         get_prop (doc' ! i) (str ''profiles'') = Some (JArr (ps @ [p]))"
    by blast
next
  fix ls'
  assume "removeProfileFromCategory J ls cid pid = Inr (True, ls')"
  from remove_frame [OF this]
  show "\<exists>i ps k doc'.
         ls' = ls\<lparr>items := (items ls)(STORAGE_KEY \<mapsto> stringify J (JArr doc'))\<rparr> \<and>
         i < length (readCategories J ls) \<and> id_is cid (readCategories J ls ! i) \<and>
         (\<forall>j < i. \<not> id_is cid (readCategories J ls ! j)) \<and>
         length doc' = length (readCategories J ls) \<and>
         (\<forall>j. j < length (readCategories J ls) \<and> j \<noteq> i \<longrightarrow>
            doc' ! j = readCategories J ls ! j) \<and>
         get_prop (readCategories J ls ! i) (str ''profiles'') = Some (JArr ps) \<and>
         k < length ps \<and>
         get_prop (doc' ! i) (str ''profiles'') = Some (JArr (take k ps @ drop (Suc k) ps))"
    by blast
qed

theorem first_match_witness:
  "findCategoryById example_JSON (example_storage text_mixed) (str ''c1'') =
     Some (friends [ann, bob]) \<and>
   getCurrentCategory example_JSON (example_storage text_mixed) (Some (str ''c1'')) =
     Some (friends [ann, bob]) \<and>
   (\<exists>i. i < length (readCategories example_JSON (example_storage text_mixed)) \<and>
      readCategories example_JSON (example_storage text_mixed) ! i = friends [ann, bob] \<and>
      id_is (str ''c1'') (friends [ann, bob]) \<and>
      (\<forall>j < i. \<not> id_is (str ''c1'')
         (readCategories example_JSON (example_storage text_mixed) ! j))) \<and>
   (\<exists>c \<in> set (readCategories example_JSON (example_storage text_mixed)).
      id_is (str ''c1'') c) \<and>
   trim (str ''c1'') \<noteq> [] \<and> str ''c1'' \<noteq> [] \<and>
   findCategoryById example_JSON (example_storage text_mixed) (str ''c1'') \<noteq> None \<and>
   getCurrentCategory example_JSON (example_storage text_mixed) (Some (str ''c1'')) \<noteq> None \<and>
   addProfileToCategory example_JSON (example_storage text_mixed) (str ''c1'') cy =
     Inr (True, (example_storage text_mixed)\<lparr>items :=
       (items (example_storage text_mixed))(STORAGE_KEY \<mapsto> text_added)\<rparr>) \<and>
   (\<exists>i ps doc'.
      (example_storage text_mixed)\<lparr>items :=
          (items (example_storage text_mixed))(STORAGE_KEY \<mapsto> text_added)\<rparr> =
        (example_storage text_mixed)\<lparr>items :=
          (items (example_storage text_mixed))
            (STORAGE_KEY \<mapsto> stringify example_JSON (JArr doc'))\<rparr> \<and>
      i < length (readCategories example_JSON (example_storage text_mixed)) \<and>
      id_is (str ''c1'') (readCategories example_JSON (example_storage text_mixed) ! i) \<and>
      (\<forall>j < i. \<not> id_is (str ''c1'')
         (readCategories example_JSON (example_storage text_mixed) ! j)) \<and>
      length doc' = length (readCategories example_JSON (example_storage text_mixed)) \<and>
      (\<forall>j. j < length (readCategories example_JSON (example_storage text_mixed)) \<and> j \<noteq> i \<longrightarrow>
         doc' ! j = readCategories example_JSON (example_storage text_mixed) ! j) \<and>
      get_prop (readCategories example_JSON (example_storage text_mixed) ! i) (str ''profiles'') =
        Some (JArr ps) \<and>
      get_prop (doc' ! i) (str ''profiles'') = Some (JArr (ps @ [cy]))) \<and>
   removeProfileFromCategory example_JSON (example_storage text_mixed) (str ''c1'') (str ''p1'') =
     Inr (True, (example_storage text_mixed)\<lparr>items :=
       (items (example_storage text_mixed))(STORAGE_KEY \<mapsto> text_removed)\<rparr>) \<and>
   (\<exists>i ps k doc'.
      (example_storage text_mixed)\<lparr>items :=
          (items (example_storage text_mixed))(STORAGE_KEY \<mapsto> text_removed)\<rparr> =
        (example_storage text_mixed)\<lparr>items :=
          (items (example_storage text_mixed))
            (STORAGE_KEY \<mapsto> stringify example_JSON (JArr doc'))\<rparr> \<and>
      i < length (readCategories example_JSON (example_storage text_mixed)) \<and>
      id_is (str ''c1'') (readCategories example_JSON (example_storage text_mixed) ! i) \<and>
      (\<forall>j < i. \<not> id_is (str ''c1'')
         (readCategories example_JSON (example_storage text_mixed) ! j)) \<and>
      length doc' = length (readCategories example_JSON (example_storage text_mixed)) \<and>
      (\<forall>j. j < length (readCategories example_JSON (example_storage text_mixed)) \<and> j \<noteq> i \<longrightarrow>
         doc' ! j = readCategories example_JSON (example_storage text_mixed) ! j) \<and>
      get_prop (readCategories example_JSON (example_storage text_mixed) ! i) (str ''profiles'') =
        Some (JArr ps) \<and>
      k < length ps \<and>
      get_prop (doc' ! i) (str ''profiles'') = Some (JArr (take k ps @ drop (Suc k) ps)))"
proof -
  let ?ls = "example_storage text_mixed"
  note t = first_match [of example_JSON ?ls "str ''c1''" cy "str ''p1''"]
  note first = t [THEN conjunct1, THEN spec, THEN mp, OF disjI1, OF example_find(1)]
  have pres: "\<exists>c \<in> set (readCategories example_JSON ?ls). id_is (str ''c1'') c"
    by (simp add: example_read example_ids)
  have ne: "trim (str ''c1'') \<noteq> []" "str ''c1'' \<noteq> []"
    by (simp_all add: trim_def isWhiteSpace_def str_def)
  note found = t [THEN conjunct2, THEN conjunct1, THEN mp, OF pres]
  note found1 = found [THEN conjunct1, THEN mp, OF ne(1)]
  note found2 = found [THEN conjunct2, THEN mp, OF ne(2)]
  note added = t [THEN conjunct2, THEN conjunct2, THEN conjunct1, THEN spec, THEN mp,
    OF example_add]
  note removed = t [THEN conjunct2, THEN conjunct2, THEN conjunct2, THEN spec, THEN mp,
    OF example_remove]
  from example_find first pres ne found1 found2 example_add added example_remove removed
  show ?thesis
    by (intro conjI)
qed

end
